theory Spec2Isabelle
  imports Complex_Main "HOL-Library.Char_ord" "HOL-Library.List_Lexorder" "HOL-Library.AList"
begin

section \<open>Python values, exceptions and arrays\<close>

text \<open>
  The module \<open>orangecontrib/datasets/api_wrapper.py\<close> turns the list of lists that
  the wrapped client's \<open>as_list\<close> returns into a numpy array, drops columns, and
  builds an Orange table from the pieces.

  A cell is one of the Python objects the client puts into such a list: \<open>None\<close>, a
  string, a number, or a date; \<open>PNaN\<close> is the float \<open>nan\<close> that \<open>np.where\<close> writes
  into a table later on. An exception is a value of \<open>error\<close> and a function that
  can raise returns \<open>error + 'a\<close>, with \<open>Inl\<close> the exception.

  An array is the list of its rows. This is numpy's object array, the array
  \<open>np.array\<close> builds as soon as one cell is \<open>None\<close> or a date, in which every cell
  stays the Python object it was. (For a list holding strings and numbers only,
  numpy converts every cell to a fixed-width string; that conversion is outside
  this development, and every concrete table below holds a \<open>None\<close>.)
\<close>

datatype error = IndexError | ValueError | TypeError | AttributeError | OverflowError | KeyError

datatype date = Date (year_of: int) (month_of: int) (day_of: int)

datatype pyval = PNone | PStr string | PNum real | PNaN | PDate date

text \<open>Raising propagates: the rest of the function body runs on a returned value only.\<close>

definition ebind :: "error + 'a \<Rightarrow> ('a \<Rightarrow> error + 'b) \<Rightarrow> error + 'b" where
  "ebind m f = (case m of Inl e \<Rightarrow> Inl e | Inr v \<Rightarrow> f v)"

text \<open>Python's \<open>bool(x)\<close>: \<open>None\<close>, the empty string and zero are false; \<open>nan\<close> and a date are true.\<close>

fun truthy :: "pyval \<Rightarrow> bool" where
  "truthy PNone = False"
| "truthy (PStr s) = (s \<noteq> [])"
| "truthy (PNum x) = (x \<noteq> 0)"
| "truthy PNaN = True"
| "truthy (PDate d) = True"

text \<open>
  \<open>np.array(rows)\<close>: rows of one length give the two-dimensional array of these rows;
  rows of different lengths raise \<open>ValueError\<close>. The empty list gives the
  one-dimensional array of no elements, written \<open>[]\<close> here: it has no second axis.
\<close>

definition np_array :: "pyval list list \<Rightarrow> error + pyval list list" where
  "np_array l = (if \<forall>r \<in> set l. length r = length (hd l) then Inr l else Inl ValueError)"

text \<open>
  \<open>data[1:, :].T\<close>: the columns of the rows below the header, one list per column.
  A header alone has columns, all of them empty. Indexing the one-dimensional empty
  array with two indices raises \<open>IndexError\<close>.
\<close>

definition below_header_T :: "pyval list list \<Rightarrow> error + pyval list list" where
  "below_header_T data =
     (case data of
        [] \<Rightarrow> Inl IndexError
      | h # rs \<Rightarrow> Inr (map (\<lambda>j. map (\<lambda>r. r ! j) rs) [0..<length h]))"

text \<open>\<open>data[:, filter_]\<close>: of every row, the cells at the listed indices, in the listed order.\<close>

definition take_columns :: "pyval list list \<Rightarrow> nat list \<Rightarrow> pyval list list" where
  "take_columns data keep = map (\<lambda>row. map (\<lambda>j. row ! j) keep) data"

text \<open>
  \<open>as_np_array\<close> of both dataset classes, applied to what \<open>as_list\<close> returned:
  \<^verbatim>\<open>
  data = np.array(self.as_list(...))
  filter_ = [ind for ind, col in enumerate(data[1:, :].T) if any(col)]
  return data[:, filter_]
  \<close>
\<close>

definition as_np_array :: "pyval list list \<Rightarrow> error + pyval list list" where
  "as_np_array l =
     ebind (np_array l) (\<lambda>data.
     ebind (below_header_T data) (\<lambda>cols.
       let keep = map fst (filter (\<lambda>(ind, col). list_ex truthy col) (enumerate 0 cols))
       in Inr (take_columns data keep)))"

section \<open>Date strings\<close>

text \<open>
  \<open>datetime.date(y, m, d)\<close> of CPython: an argument that does not fit a C \<open>int\<close>
  raises \<open>OverflowError\<close>; a year outside 1..9999, a month outside 1..12 or a day
  the month does not have raises \<open>ValueError\<close>.
\<close>

definition c_int :: "int \<Rightarrow> bool" where
  "c_int n = (- 2147483648 \<le> n \<and> n \<le> 2147483647)"

definition is_leap :: "int \<Rightarrow> bool" where
  "is_leap y = (y mod 4 = 0 \<and> (y mod 100 \<noteq> 0 \<or> y mod 400 = 0))"

definition days_in_month :: "int \<Rightarrow> int \<Rightarrow> int" where
  "days_in_month y m =
     (if m = 2 then (if is_leap y then 29 else 28)
      else if m = 4 \<or> m = 6 \<or> m = 9 \<or> m = 11 then 30 else 31)"

definition datetime_date :: "int \<Rightarrow> int \<Rightarrow> int \<Rightarrow> error + date" where
  "datetime_date y m d =
     (if \<not> (c_int y \<and> c_int m \<and> c_int d) then Inl OverflowError
      else if y < 1 \<or> 9999 < y then Inl ValueError
      else if m < 1 \<or> 12 < m then Inl ValueError
      else if d < 1 \<or> days_in_month y m < d then Inl ValueError
      else Inr (Date y m d))"

text \<open>Decimal numerals, and \<open>date.isoformat()\<close>, which is \<open>'%04d-%02d-%02d'\<close>.\<close>

definition digit_char :: "nat \<Rightarrow> char" where
  "digit_char n = ''0123456789'' ! n"

fun dec :: "nat \<Rightarrow> string" where
  "dec n = (if n < 10 then [digit_char n] else dec (n div 10) @ [digit_char (n mod 10)])"

declare dec.simps [simp del]

definition zfill :: "nat \<Rightarrow> string \<Rightarrow> string" where
  "zfill w s = replicate (w - length s) (CHR ''0'') @ s"

definition isoformat :: "date \<Rightarrow> string" where
  "isoformat d =
     zfill 4 (dec (nat (year_of d))) @ ''-'' @ zfill 2 (dec (nat (month_of d))) @ ''-''
       @ zfill 2 (dec (nat (day_of d)))"

text \<open>
  \<open>int(s)\<close> on an ASCII string: blanks around the numeral are dropped, one sign may
  lead, and the numeral is decimal digits, where one underscore may stand between two
  digits. Anything else, and a numeral of more than 4300 digits, raises \<open>ValueError\<close>.
\<close>

definition is_space :: "char \<Rightarrow> bool" where
  "is_space c = (c \<in> set [CHR '' '', CHR 0x09, CHR 0x0A, CHR 0x0B, CHR 0x0C, CHR 0x0D])"

definition is_digit :: "char \<Rightarrow> bool" where
  "is_digit c = (c \<in> set ''0123456789'')"

definition digit_val :: "char \<Rightarrow> int" where
  "digit_val c = int (of_char c) - 48"

definition py_strip :: "string \<Rightarrow> string" where
  "py_strip s = rev (dropWhile is_space (rev (dropWhile is_space s)))"

fun numeral_ok :: "string \<Rightarrow> bool" where
  "numeral_ok [] = False"
| "numeral_ok [c] = is_digit c"
| "numeral_ok (c # d # cs) =
     (is_digit c \<and> (if d = CHR ''_'' then numeral_ok cs else numeral_ok (d # cs)))"

definition numeral_val :: "string \<Rightarrow> int" where
  "numeral_val s = foldl (\<lambda>a c. 10 * a + digit_val c) 0 (filter is_digit s)"

definition py_int :: "string \<Rightarrow> error + int" where
  "py_int s =
     (let t = py_strip s;
          (sign, body) = (case t of
                            c # r \<Rightarrow> (if c = CHR ''+'' then (1, r)
                                      else if c = CHR ''-'' then (- 1, r) else (1, t))
                          | [] \<Rightarrow> (1, t))
      in if numeral_ok body \<and> length (filter is_digit body) \<le> 4300
         then Inr (sign * numeral_val body) else Inl ValueError)"

text \<open>\<open>s.split(sep)\<close> for a separator of one character: never the empty list.\<close>

fun py_split :: "char \<Rightarrow> string \<Rightarrow> string list" where
  "py_split sep [] = [[]]"
| "py_split sep (c # cs) =
     (if c = sep then [] # py_split sep cs
      else (case py_split sep cs of p # ps \<Rightarrow> (c # p) # ps | [] \<Rightarrow> [[c]]))"

text \<open>
  \<open>IndicatorDataset._get_iso_date\<close>. The clock's \<open>datetime.date.today()\<close> is the
  parameter \<open>today\<close>. Unpacking \<open>split\<close> into two names raises \<open>ValueError\<close> unless
  there are exactly two parts. The handler catches \<open>ValueError\<close> and nothing else.
  \<^verbatim>\<open>
  try:
      if "Q" in date_str:
          year, quarter = date_str.split("Q")
          return datetime.date(int(year), (int(quarter) * 3) - 2, 1)
      elif "M" in date_str:
          year, month = date_str.split("M")
          return datetime.date(int(year), int(month), 1)
      else:
          return datetime.date(int(date_str), 1, 1).isoformat()
  except ValueError:
      return datetime.date.today().isoformat()
  \<close>
\<close>

definition try_iso_date :: "string \<Rightarrow> error + pyval" where
  "try_iso_date date_str =
     (if CHR ''Q'' \<in> set date_str then
        (case py_split (CHR ''Q'') date_str of
           [year, quarter] \<Rightarrow>
             ebind (py_int year) (\<lambda>y.
             ebind (py_int quarter) (\<lambda>q.
             ebind (datetime_date y (q * 3 - 2) 1) (\<lambda>d. Inr (PDate d))))
         | _ \<Rightarrow> Inl ValueError)
      else if CHR ''M'' \<in> set date_str then
        (case py_split (CHR ''M'') date_str of
           [year, month] \<Rightarrow>
             ebind (py_int year) (\<lambda>y.
             ebind (py_int month) (\<lambda>m.
             ebind (datetime_date y m 1) (\<lambda>d. Inr (PDate d))))
         | _ \<Rightarrow> Inl ValueError)
      else
        ebind (py_int date_str) (\<lambda>y.
        ebind (datetime_date y 1 1) (\<lambda>d. Inr (PStr (isoformat d)))))"

definition get_iso_date :: "date \<Rightarrow> string \<Rightarrow> error + pyval" where
  "get_iso_date today date_str =
     (case try_iso_date date_str of
        Inl ValueError \<Rightarrow> Inr (PStr (isoformat today))
      | Inl e \<Rightarrow> Inl e
      | Inr v \<Rightarrow> Inr v)"

section \<open>Orange tables\<close>

text \<open>
  What the module hands to Orange: variables, a domain of attributes and metas, and a
  table of a domain, the data columns \<open>X\<close> and the meta columns. A variable's name is the
  cell the code passes as the name.
\<close>

datatype variable =
    StringVariable pyval
  | DiscreteVariable pyval "pyval list"
  | ContinuousVariable pyval
  | TimeVariable pyval

record domain =
  dom_attributes :: "variable list"
  dom_metas :: "variable list"

record table =
  tbl_domain :: domain
  tbl_X :: "pyval list list"
  tbl_metas :: "pyval list list"

text \<open>A comprehension or a loop whose body can raise stops at the first element that does.\<close>

fun emap :: "('a \<Rightarrow> error + 'b) \<Rightarrow> 'a list \<Rightarrow> error + 'b list" where
  "emap f [] = Inr []"
| "emap f (x # xs) = ebind (f x) (\<lambda>y. ebind (emap f xs) (\<lambda>ys. Inr (y # ys)))"

text \<open>\<open>data.any()\<close>, as \<open>not data.any()\<close> reads it: is some cell of the array true?\<close>

definition np_any :: "pyval list list \<Rightarrow> bool" where
  "np_any data = list_ex (list_ex truthy) data"

text \<open>
  \<open>a[:, j]\<close> for an array of width \<open>w\<close>, and \<open>row[k]\<close>, \<open>row[k] = v\<close> for one row:
  an index past the end raises \<open>IndexError\<close>.
\<close>

definition column :: "nat \<Rightarrow> pyval list list \<Rightarrow> nat \<Rightarrow> error + pyval list" where
  "column w rows j = (if j < w then Inr (map (\<lambda>r. r ! j) rows) else Inl IndexError)"

definition get_item :: "pyval list \<Rightarrow> nat \<Rightarrow> error + pyval" where
  "get_item row k = (if k < length row then Inr (row ! k) else Inl IndexError)"

definition set_item :: "pyval list \<Rightarrow> nat \<Rightarrow> pyval \<Rightarrow> error + pyval list" where
  "set_item row k v = (if k < length row then Inr (row[k := v]) else Inl IndexError)"

subsection \<open>Sorting and dictionaries\<close>

text \<open>
  \<open>a < b\<close> on cells: strings by code point, numbers by value (\<open>nan\<close> is below nothing
  and nothing is below it), dates by calendar; any other pair raises \<open>TypeError\<close>.
\<close>

definition date_lt :: "date \<Rightarrow> date \<Rightarrow> bool" where
  "date_lt a b =
     (year_of a < year_of b
      \<or> (year_of a = year_of b
          \<and> (month_of a < month_of b \<or> (month_of a = month_of b \<and> day_of a < day_of b))))"

fun py_lt :: "pyval \<Rightarrow> pyval \<Rightarrow> error + bool" where
  "py_lt (PStr a) (PStr b) = Inr (a < b)"
| "py_lt (PNum a) (PNum b) = Inr (a < b)"
| "py_lt (PNum a) PNaN = Inr False"
| "py_lt PNaN (PNum b) = Inr False"
| "py_lt PNaN PNaN = Inr False"
| "py_lt (PDate a) (PDate b) = Inr (date_lt a b)"
| "py_lt a b = Inl TypeError"

text \<open>
  \<open>sorted(xs, key=key)\<close>: a stable sort that compares keys with \<open><\<close> only, written as
  insertion from the right. On keys that \<open><\<close> orders totally every stable sort returns
  this list.
\<close>

fun py_insort :: "(pyval \<Rightarrow> pyval) \<Rightarrow> pyval \<Rightarrow> pyval list \<Rightarrow> error + pyval list" where
  "py_insort key x [] = Inr [x]"
| "py_insort key x (y # ys) =
     ebind (py_lt (key y) (key x)) (\<lambda>below.
       if below then ebind (py_insort key x ys) (\<lambda>r. Inr (y # r))
       else Inr (x # y # ys))"

fun py_sorted :: "(pyval \<Rightarrow> pyval) \<Rightarrow> pyval list \<Rightarrow> error + pyval list" where
  "py_sorted key [] = Inr []"
| "py_sorted key (x # xs) = ebind (py_sorted key xs) (py_insort key x)"

text \<open>
  A dictionary is the list of its items in insertion order; storing under a key that is
  present replaces the value where the key stands. \<open>index_dict xs\<close> is
  \<open>{r: i for i, r in enumerate(xs)}\<close>, \<open>dict_get d k\<close> is \<open>d[k]\<close>.
\<close>

definition index_dict :: "pyval list \<Rightarrow> (pyval \<times> nat) list" where
  "index_dict xs = foldl (\<lambda>d (i, r). AList.update r i d) [] (enumerate 0 xs)"

definition dict_get :: "(pyval \<times> nat) list \<Rightarrow> pyval \<Rightarrow> error + nat" where
  "dict_get d k = (case map_of d k of None \<Rightarrow> Inl KeyError | Some i \<Rightarrow> Inr i)"

subsection \<open>\<open>IndicatorDataset\<close>\<close>

text \<open>
  A dataset object is what its inherited \<open>as_list\<close> returns for the flags
  \<open>time_series\<close> and \<open>add_metadata\<close>; \<open>as_list\<close> itself belongs to the wrapped client.
\<close>

type_synonym indicator_dataset = "bool \<Rightarrow> bool \<Rightarrow> pyval list list"

definition IndicatorDataset_as_np_array ::
  "indicator_dataset \<Rightarrow> bool \<Rightarrow> bool \<Rightarrow> error + pyval list list" where
  "IndicatorDataset_as_np_array self time_series add_metadata =
     as_np_array (self time_series add_metadata)"

text \<open>
  \<open>time.mktime(date_.timetuple())\<close>: only a date has \<open>timetuple\<close>; the platform's
  \<open>mktime\<close> is a parameter and may raise.
\<close>

definition timetuple_mktime :: "(date \<Rightarrow> error + real) \<Rightarrow> pyval \<Rightarrow> error + real" where
  "timetuple_mktime mktime c = (case c of PDate d \<Rightarrow> mktime d | _ \<Rightarrow> Inl AttributeError)"

definition timestamp_row :: "(date \<Rightarrow> error + real) \<Rightarrow> pyval \<Rightarrow> error + pyval list" where
  "timestamp_row mktime date_v =
     (if truthy date_v then ebind (timetuple_mktime mktime date_v) (\<lambda>t. Inr [PNum t])
      else Inr [PNone])"

text \<open>
  \<^verbatim>\<open>
  data = self.as_np_array(time_series=True)
  if not data.any():
      return None
  meta_columns = [[time.mktime(date_.timetuple()) if date_ else None]
                  for date_ in data[1:, 0]]
  data_columns = data[1:, 1:]
  meta_domains = [Orange.data.TimeVariable("Date")]
  colum_domains = [Orange.data.ContinuousVariable(column_name)
                   for column_name in data[0, 1:]]
  domain = Orange.data.Domain(colum_domains, metas=meta_domains)
  return Orange.data.Table(domain, data_columns, metas=meta_columns)
  \<close>
\<close>

definition IndicatorDataset_time_series_table ::
  "(date \<Rightarrow> error + real) \<Rightarrow> indicator_dataset \<Rightarrow> error + table option" where
  "IndicatorDataset_time_series_table mktime self =
     ebind (IndicatorDataset_as_np_array self True False) (\<lambda>data.
       if \<not> np_any data then Inr None
       else
         ebind (column (length (hd data)) (tl data) 0) (\<lambda>dates.
         ebind (emap (timestamp_row mktime) dates) (\<lambda>meta_columns.
           let data_columns = map (drop 1) (tl data);
               meta_domains = [TimeVariable (PStr ''Date'')];
               colum_domains = map ContinuousVariable (drop 1 (hd data))
           in Inr (Some \<lparr>tbl_domain = \<lparr>dom_attributes = colum_domains, dom_metas = meta_domains\<rparr>,
                          tbl_X = data_columns, tbl_metas = meta_columns\<rparr>))))"

text \<open>The local \<open>nonesorter\<close>: the sort key of a false value is the empty string.\<close>

definition nonesorter :: "pyval \<Rightarrow> pyval" where
  "nonesorter a = (if \<not> truthy a then PStr [] else a)"

text \<open>
  \<open>{r: i for i, r in enumerate(sorted(set(meta_columns[:, k]), key=nonesorter))}\<close>.
  A set iterates over its elements in an order the language does not fix: \<open>py_set xs\<close>
  stands for the elements of \<open>set(xs)\<close> in the order of that iteration.
\<close>

definition encoding ::
  "(pyval list \<Rightarrow> pyval list) \<Rightarrow> nat \<Rightarrow> pyval list list \<Rightarrow> nat \<Rightarrow> error + (pyval \<times> nat) list" where
  "encoding py_set w meta_columns k =
     ebind (column w meta_columns k) (\<lambda>col.
     ebind (py_sorted nonesorter (py_set col)) (\<lambda>s. Inr (index_dict s)))"

text \<open>\<open>sorted(regions.keys(), key=nonesorter)\<close>, the values of a discrete variable.\<close>

definition discrete_values :: "(pyval \<times> nat) list \<Rightarrow> error + pyval list" where
  "discrete_values d = py_sorted nonesorter (map fst d)"

text \<open>\<open>row[k] = d[row[k]]\<close>, and the body of the loop over the rows of \<open>meta_columns\<close>.\<close>

definition encode_cell :: "(pyval \<times> nat) list \<Rightarrow> nat \<Rightarrow> pyval list \<Rightarrow> error + pyval list" where
  "encode_cell d k row =
     ebind (get_item row k) (\<lambda>v.
     ebind (dict_get d v) (\<lambda>i. set_item row k (PNum (of_nat i))))"

definition encode_row ::
  "(pyval \<times> nat) list \<Rightarrow> (pyval \<times> nat) list \<Rightarrow> (pyval \<times> nat) list \<Rightarrow> (pyval \<times> nat) list
     \<Rightarrow> pyval list \<Rightarrow> error + pyval list" where
  "encode_row regions admin_regions income_level lending_type row =
     ebind (encode_cell regions 1 row) (\<lambda>row.
     ebind (encode_cell admin_regions 2 row) (\<lambda>row.
     ebind (encode_cell income_level 3 row) (\<lambda>row.
     encode_cell lending_type 6 row)))"

text \<open>
  \<open>float(x)\<close>: a float stays, a string is parsed, \<open>None\<close> and a date raise
  \<open>TypeError\<close>. The parser of float literals is the parameter \<open>float_of_str\<close>: it
  raises, or returns a number, or \<open>None\<close> for \<open>nan\<close>. \<open>astype(float)\<close> does to every
  cell what \<open>float\<close> does, except that it turns \<open>None\<close> into \<open>nan\<close>.
\<close>

definition py_float :: "(string \<Rightarrow> error + real option) \<Rightarrow> pyval \<Rightarrow> error + pyval" where
  "py_float float_of_str c =
     (case c of
        PNum x \<Rightarrow> Inr (PNum x)
      | PNaN \<Rightarrow> Inr PNaN
      | PStr s \<Rightarrow> ebind (float_of_str s) (\<lambda>f. Inr (case f of None \<Rightarrow> PNaN | Some x \<Rightarrow> PNum x))
      | PNone \<Rightarrow> Inl TypeError
      | PDate d \<Rightarrow> Inl TypeError)"

definition astype_float :: "(string \<Rightarrow> error + real option) \<Rightarrow> pyval \<Rightarrow> error + pyval" where
  "astype_float float_of_str c = (case c of PNone \<Rightarrow> Inr PNaN | _ \<Rightarrow> py_float float_of_str c)"

text \<open>\<open>np.where(a == v, np.nan, a)\<close>.\<close>

definition np_where_nan :: "pyval \<Rightarrow> pyval list list \<Rightarrow> pyval list list" where
  "np_where_nan v a = map (map (\<lambda>c. if c = v then PNaN else c)) a"

text \<open>
  \<open>row[k] = float(row[k])\<close>, and the body of the loop over the rows of
  \<open>meta_columns[:, 1:]\<close>: the row of the loop is a view of the row without its first
  cell, so its cells 3 and 4 are the cells 4 and 5 of the meta row.
\<close>

definition float_cell :: "(string \<Rightarrow> error + real option) \<Rightarrow> nat \<Rightarrow> pyval list \<Rightarrow> error + pyval list" where
  "float_cell float_of_str k row =
     ebind (get_item row k) (\<lambda>v.
     ebind (py_float float_of_str v) (\<lambda>f. set_item row k f))"

definition float_lon_lat :: "(string \<Rightarrow> error + real option) \<Rightarrow> pyval list \<Rightarrow> error + pyval list" where
  "float_lon_lat float_of_str meta_row =
     ebind (float_cell float_of_str 3 (drop 1 meta_row)) (\<lambda>row.
     ebind (float_cell float_of_str 4 row) (\<lambda>row.
     Inr (take 1 meta_row @ row)))"

text \<open>
  \<open>IndicatorDataset._country_table\<close>, in the order of the source: the four dictionaries,
  the meta domains with their sorted values, the column domains, the loop that encodes
  the meta rows in place, the conversion of the data columns, the two \<open>np.where\<close> on
  each part, and the loop that converts longitude and latitude.
\<close>

definition IndicatorDataset_country_table ::
  "(pyval list \<Rightarrow> pyval list) \<Rightarrow> (string \<Rightarrow> error + real option) \<Rightarrow> indicator_dataset
     \<Rightarrow> error + table option" where
  "IndicatorDataset_country_table py_set float_of_str self =
     ebind (IndicatorDataset_as_np_array self False True) (\<lambda>data.
       if \<not> np_any data then Inr None
       else
         let w = min 7 (length (hd data));
             meta_columns = map (take 7) (tl data);
             data_columns = map (drop 7) (tl data)
         in
         ebind (encoding py_set w meta_columns 1) (\<lambda>regions.
         ebind (encoding py_set w meta_columns 2) (\<lambda>admin_regions.
         ebind (encoding py_set w meta_columns 3) (\<lambda>income_level.
         ebind (encoding py_set w meta_columns 6) (\<lambda>lending_type.
         ebind (discrete_values regions) (\<lambda>region_values.
         ebind (discrete_values admin_regions) (\<lambda>admin_region_values.
         ebind (discrete_values income_level) (\<lambda>income_level_values.
         ebind (discrete_values lending_type) (\<lambda>lending_type_values.
           let meta_domains =
                 [StringVariable (PStr ''Country''),
                  DiscreteVariable (PStr ''Region'') region_values,
                  DiscreteVariable (PStr ''Admin region'') admin_region_values,
                  DiscreteVariable (PStr ''Income level'') income_level_values,
                  ContinuousVariable (PStr ''Longitude''),
                  ContinuousVariable (PStr ''Latitude''),
                  DiscreteVariable (PStr ''Lending type'') lending_type_values];
               column_domains = map ContinuousVariable (drop 7 (hd data))
           in
           ebind (emap (encode_row regions admin_regions income_level lending_type) meta_columns)
             (\<lambda>meta_columns.
           ebind (emap (emap (astype_float float_of_str)) data_columns) (\<lambda>data_columns.
             let data_columns = np_where_nan PNone data_columns;
                 data_columns = np_where_nan (PStr []) data_columns;
                 meta_columns = np_where_nan PNone meta_columns;
                 meta_columns = np_where_nan (PStr []) meta_columns
             in
             ebind (emap (float_lon_lat float_of_str) meta_columns) (\<lambda>meta_columns.
               Inr (Some \<lparr>tbl_domain = \<lparr>dom_attributes = column_domains, dom_metas = meta_domains\<rparr>,
                          tbl_X = data_columns, tbl_metas = meta_columns\<rparr>)))))))))))))"

definition IndicatorDataset_as_orange_table ::
  "(pyval list \<Rightarrow> pyval list) \<Rightarrow> (string \<Rightarrow> error + real option) \<Rightarrow> (date \<Rightarrow> error + real)
     \<Rightarrow> indicator_dataset \<Rightarrow> bool \<Rightarrow> error + table option" where
  "IndicatorDataset_as_orange_table py_set float_of_str mktime self time_series =
     (if time_series then IndicatorDataset_time_series_table mktime self
      else IndicatorDataset_country_table py_set float_of_str self)"

subsection \<open>\<open>ClimateDataset\<close>\<close>

text \<open>
  A climate dataset is what its inherited \<open>as_list\<close> returns; the flag says whether
  the call passes \<open>columns=["country", "type"], use_dates=True\<close>, as
  \<open>_time_series_table\<close> does.
\<close>

type_synonym climate_dataset = "bool \<Rightarrow> pyval list list"

definition ClimateDataset_as_np_array :: "climate_dataset \<Rightarrow> bool \<Rightarrow> error + pyval list list" where
  "ClimateDataset_as_np_array self use_dates = as_np_array (self use_dates)"

text \<open>
  \<open>row[0] = alpha3_map.get(row[0], row[0])\<close>. The map of \<open>countries.get_alpha3_map()\<close>,
  from alpha-3 codes to country names, is a parameter. A key that is not a string is
  not in it.
\<close>

definition alpha3_get :: "(string \<rightharpoonup> string) \<Rightarrow> pyval \<Rightarrow> pyval" where
  "alpha3_get alpha3_map c =
     (case c of
        PStr s \<Rightarrow> (case alpha3_map s of Some name \<Rightarrow> PStr name | None \<Rightarrow> c)
      | _ \<Rightarrow> c)"

definition normalize_row :: "(string \<rightharpoonup> string) \<Rightarrow> pyval list \<Rightarrow> error + pyval list" where
  "normalize_row alpha3_map row =
     ebind (get_item row 0) (\<lambda>c. set_item row 0 (alpha3_get alpha3_map c))"

text \<open>
  \<^verbatim>\<open>
  data = self.as_np_array(**kwargs)
  if data.shape[0] < 2:
      return None
  alpha3_map = countries.get_alpha3_map()
  meta_columns = data[1:, :1]
  data_columns = data[1:, 1:]
  for row in meta_columns:
      row[0] = alpha3_map.get(row[0], row[0])
  meta_domains = [Orange.data.StringVariable(name) for name in data[0, :1]]
  colum_domains = [Orange.data.ContinuousVariable(column_name)
                   for column_name in data[0, 1:]]
  domain = Orange.data.Domain(colum_domains, metas=meta_domains)
  return Orange.data.Table(domain, data_columns, metas=meta_columns)
  \<close>
\<close>

definition ClimateDataset_country_table ::
  "(string \<rightharpoonup> string) \<Rightarrow> climate_dataset \<Rightarrow> error + table option" where
  "ClimateDataset_country_table alpha3_map self =
     ebind (ClimateDataset_as_np_array self False) (\<lambda>data.
       if length data < 2 then Inr None
       else
         let meta_columns = map (take 1) (tl data);
             data_columns = map (drop 1) (tl data)
         in
         ebind (emap (normalize_row alpha3_map) meta_columns) (\<lambda>meta_columns.
           let meta_domains = map StringVariable (take 1 (hd data));
               colum_domains = map ContinuousVariable (drop 1 (hd data))
           in Inr (Some \<lparr>tbl_domain = \<lparr>dom_attributes = colum_domains, dom_metas = meta_domains\<rparr>,
                          tbl_X = data_columns, tbl_metas = meta_columns\<rparr>)))"

text \<open>
  \<open>ClimateDataset._time_series_table\<close>: the meta rows are the one-cell lists of time
  stamps, and the loop looks each time stamp up in the alpha-3 map.
\<close>

definition ClimateDataset_time_series_table ::
  "(date \<Rightarrow> error + real) \<Rightarrow> (string \<rightharpoonup> string) \<Rightarrow> climate_dataset \<Rightarrow> error + table option" where
  "ClimateDataset_time_series_table mktime alpha3_map self =
     ebind (ClimateDataset_as_np_array self True) (\<lambda>data.
       if length data < 2 then Inr None
       else
         ebind (column (length (hd data)) (tl data) 0) (\<lambda>dates.
         ebind (emap (timestamp_row mktime) dates) (\<lambda>meta_columns.
           let data_columns = map (drop 1) (tl data)
           in
           ebind (emap (normalize_row alpha3_map) meta_columns) (\<lambda>meta_columns.
             let meta_domains = map TimeVariable (take 1 (hd data));
                 colum_domains = map ContinuousVariable (drop 1 (hd data))
             in Inr (Some \<lparr>tbl_domain = \<lparr>dom_attributes = colum_domains, dom_metas = meta_domains\<rparr>,
                            tbl_X = data_columns, tbl_metas = meta_columns\<rparr>)))))"

definition ClimateDataset_as_orange_table ::
  "(date \<Rightarrow> error + real) \<Rightarrow> (string \<rightharpoonup> string) \<Rightarrow> climate_dataset \<Rightarrow> bool
     \<Rightarrow> error + table option" where
  "ClimateDataset_as_orange_table mktime alpha3_map self time_series =
     (if time_series then ClimateDataset_time_series_table mktime alpha3_map self
      else ClimateDataset_country_table alpha3_map self)"

section \<open>Notions used to state the properties\<close>



text \<open>A list of lists is rectangular when every row is as long as the first.\<close>

definition rectangular :: "'a list list \<Rightarrow> bool" where
  "rectangular l = (\<forall>r \<in> set l. length r = length (hd l))"

text \<open>
  A cell of a metadata column that is encoded: a string or \<open>None\<close>. Its sort key under
  \<open>nonesorter\<close> is the string itself, or the empty string for \<open>None\<close>.
\<close>

definition str_or_none :: "pyval \<Rightarrow> bool" where
  "str_or_none c = (case c of PNone \<Rightarrow> True | PStr s \<Rightarrow> True | _ \<Rightarrow> False)"

definition str_key :: "pyval \<Rightarrow> string" where
  "str_key c = (case c of PStr s \<Rightarrow> s | _ \<Rightarrow> [])"

text \<open>What the two \<open>np.where\<close> make of a cell: \<open>None\<close> and the empty string become \<open>nan\<close>.\<close>

definition nan_if_empty :: "pyval \<Rightarrow> pyval" where
  "nan_if_empty c = (if c = PNone \<or> c = PStr [] then PNaN else c)"

text \<open>A computation returns when it does not raise.\<close>

definition returns :: "error + 'a \<Rightarrow> bool" where
  "returns m = (case m of Inl e \<Rightarrow> False | Inr v \<Rightarrow> True)"

text \<open>
  The distinct cells of column \<open>k\<close> of the rows, sorted by their string keys: for a
  column of strings and \<open>None\<close>, what \<open>sorted(set(column), key=nonesorter)\<close> returns.
\<close>

definition sorted_values :: "(pyval list \<Rightarrow> pyval list) \<Rightarrow> pyval list list \<Rightarrow> nat \<Rightarrow> pyval list" where
  "sorted_values py_set rows k = sort_key str_key (py_set (map (\<lambda>r. r ! k) rows))"


text \<open>
  What \<open>_country_table\<close> needs of the filtered array to return a table: seven columns at
  least, strings or \<open>None\<close> in the four columns it encodes, and cells that convert to
  float in the data columns and, once \<open>None\<close> and the empty string are \<open>nan\<close>, in the
  columns of longitude and latitude.
\<close>

definition country_table_ready :: "(string \<Rightarrow> error + real option) \<Rightarrow> pyval list list \<Rightarrow> bool" where
  "country_table_ready float_of_str data =
     (7 \<le> length (hd data)
      \<and> list_all (\<lambda>r. str_or_none (r ! 1) \<and> str_or_none (r ! 2)
                      \<and> str_or_none (r ! 3) \<and> str_or_none (r ! 6)
                      \<and> list_all (\<lambda>c. returns (astype_float float_of_str c)) (drop 7 r)
                      \<and> returns (py_float float_of_str (nan_if_empty (r ! 4)))
                      \<and> returns (py_float float_of_str (nan_if_empty (r ! 5))))
           (tl data))"

text \<open>
  What \<open>_time_series_table\<close> needs of the filtered array: below the header, the first
  cell of a row is false or a date that \<open>mktime\<close> accepts.
\<close>

definition dates_ready :: "(date \<Rightarrow> error + real) \<Rightarrow> pyval list list \<Rightarrow> bool" where
  "dates_ready mktime data =
     list_all (\<lambda>row. case row ! 0 of PDate d \<Rightarrow> returns (mktime d) | c \<Rightarrow> \<not> truthy c) (tl data)"

text \<open>\<open>py_set\<close> lists the elements of a set: each element of the list once.\<close>

definition lists_sets :: "(pyval list \<Rightarrow> pyval list) \<Rightarrow> bool" where
  "lists_sets py_set = (\<forall>xs. distinct (py_set xs) \<and> set (py_set xs) = set xs)"

section \<open>Example data\<close>

text \<open>
  Lists as \<open>as_list\<close> returns them: with \<open>add_metadata\<close>, a header, then per country
  the name, six metadata cells and the values of the indicator; with \<open>time_series\<close>, a
  header, then per date the date and the values. A parser of the float literals that
  occur, and a clock that counts days.
\<close>

definition example_countries :: "pyval list list" where
  "example_countries =
     [[PStr ''Country'', PStr ''Region'', PStr ''Admin region'', PStr ''Income level'',
       PStr ''Longitude'', PStr ''Latitude'', PStr ''Lending type'',
       PStr ''SP.POP.TOTL - 2010'', PStr ''SP.POP.TOTL - 2011''],
      [PStr ''Brazil'', PStr ''Latin America'', PStr ''Latin America (IDA)'',
       PStr ''Upper middle income'', PStr ''-47.9'', PStr ''-15.7'', PStr ''IBRD'',
       PNum 195, PNone],
      [PStr ''Kenya'', PStr ''Sub-Saharan Africa'', PStr [], PStr ''Lower middle income'',
       PStr ''36.8'', PStr [], PStr ''IDA'', PNone, PNone]]"

definition example_world :: "pyval list list" where
  "example_world =
     [[PStr ''Country'', PStr ''Region'', PStr ''Admin region'', PStr ''Income level'',
       PStr ''Longitude'', PStr ''Latitude'', PStr ''Lending type'',
       PStr ''SP.POP.TOTL - 2010'', PStr ''SP.POP.TOTL - 2011''],
      [PStr ''World'', PStr ''Aggregates'', PStr [], PStr ''Aggregates'', PStr [], PStr [],
       PStr ''Aggregates'', PNum 6900, PNone]]"

definition example_dates :: "pyval list list" where
  "example_dates =
     [[PStr ''Date'', PStr ''SP.POP.TOTL - Brazil'', PStr ''SP.POP.TOTL - Kenya''],
      [PDate (Date 2010 1 1), PNum 195, PNone],
      [PDate (Date 2011 1 1), PNone, PNone]]"

definition example_dataset :: indicator_dataset where
  "example_dataset time_series add_metadata =
     (if time_series then example_dates else example_countries)"

definition example_float :: "string \<Rightarrow> error + real option" where
  "example_float s =
     (if s = ''-47.9'' then Inr (Some (- 47.9))
      else if s = ''-15.7'' then Inr (Some (- 15.7))
      else if s = ''36.8'' then Inr (Some 36.8)
      else Inl ValueError)"

definition example_mktime :: "date \<Rightarrow> error + real" where
  "example_mktime d = Inr (of_int (365 * (year_of d - 1970)) * 86400)"

definition example_array :: "pyval list list" where
  "example_array =
     [[PStr ''Country'', PStr ''Region'', PStr ''Admin region'', PStr ''Income level'',
       PStr ''Longitude'', PStr ''Latitude'', PStr ''Lending type'',
       PStr ''SP.POP.TOTL - 2010''],
      [PStr ''Brazil'', PStr ''Latin America'', PStr ''Latin America (IDA)'',
       PStr ''Upper middle income'', PStr ''-47.9'', PStr ''-15.7'', PStr ''IBRD'',
       PNum 195],
      [PStr ''Kenya'', PStr ''Sub-Saharan Africa'', PStr [], PStr ''Lower middle income'',
       PStr ''36.8'', PStr [], PStr ''IDA'', PNone]]"

definition example_empty :: indicator_dataset where
  "example_empty time_series add_metadata = [[PStr ''Country'', PStr ''SP.POP.TOTL - 2010''],
                                            [PStr [], PNone]]"

section \<open>The same methods on a store\<close>

text \<open>
  To see what the methods write, the lists and arrays are put into a store: a list of
  buffers, each the rows of one list of lists or of one array, addressed by position.
  Creating an object appends a buffer; nothing is ever removed. A computation takes
  the store and returns a value or an exception together with the store it leaves.

  \<open>np.array(l)\<close>, the index \<open>data[:, filter_]\<close>, \<open>astype\<close> and \<open>np.where\<close> create
  arrays. The slices \<open>data[1:, :7]\<close>, \<open>data[1:, 7:]\<close> and \<open>meta_columns[:, 1:]\<close> create
  none: a slice is a view, a window on the buffer of its array, and an assignment to
  \<open>row[k]\<close> in a loop over a view writes into that buffer.
\<close>

type_synonym store = "pyval list list list"

type_synonym 'a st = "store \<Rightarrow> (error + 'a) \<times> store"

definition sreturn :: "'a \<Rightarrow> 'a st" where
  "sreturn v = (\<lambda>s. (Inr v, s))"

definition lift :: "error + 'a \<Rightarrow> 'a st" where
  "lift m = (\<lambda>s. (m, s))"

definition sbind :: "'a st \<Rightarrow> ('a \<Rightarrow> 'b st) \<Rightarrow> 'b st" where
  "sbind m f = (\<lambda>s. case m s of (Inl e, s') \<Rightarrow> (Inl e, s') | (Inr v, s') \<Rightarrow> f v s')"

fun sforeach :: "'a list \<Rightarrow> ('a \<Rightarrow> unit st) \<Rightarrow> unit st" where
  "sforeach [] f = sreturn ()"
| "sforeach (x # xs) f = sbind (f x) (\<lambda>u. sforeach xs f)"

definition buffer :: "store \<Rightarrow> nat \<Rightarrow> pyval list list" where
  "buffer s r = (if r < length s then s ! r else [])"

definition alloc :: "pyval list list \<Rightarrow> nat st" where
  "alloc b = (\<lambda>s. (Inr (length s), s @ [b]))"

definition read :: "nat \<Rightarrow> pyval list list st" where
  "read r = (\<lambda>s. (Inr (buffer s r), s))"

text \<open>
  A view: the buffer, the first row and the first column of the window, and its width.
  \<open>view_rows\<close> reads the window, \<open>view_get v i k\<close> is \<open>row[k]\<close> and \<open>view_set v i k x\<close> is
  \<open>row[k] = x\<close> for row \<open>i\<close> of the view.
\<close>

record view =
  v_ref :: nat
  v_row0 :: nat
  v_col0 :: nat
  v_ncols :: nat

definition view_rows :: "view \<Rightarrow> pyval list list st" where
  "view_rows v =
     (\<lambda>s. (Inr (map (\<lambda>row. take (v_ncols v) (drop (v_col0 v) row))
                  (drop (v_row0 v) (buffer s (v_ref v)))), s))"

definition view_get :: "view \<Rightarrow> nat \<Rightarrow> nat \<Rightarrow> pyval st" where
  "view_get v i k =
     (\<lambda>s. let b = buffer s (v_ref v)
          in if k < v_ncols v \<and> v_row0 v + i < length b
                \<and> v_col0 v + k < length (b ! (v_row0 v + i))
             then (Inr (b ! (v_row0 v + i) ! (v_col0 v + k)), s)
             else (Inl IndexError, s))"

definition view_set :: "view \<Rightarrow> nat \<Rightarrow> nat \<Rightarrow> pyval \<Rightarrow> unit st" where
  "view_set v i k x =
     (\<lambda>s. let b = buffer s (v_ref v)
          in if k < v_ncols v \<and> v_row0 v + i < length b
                \<and> v_col0 v + k < length (b ! (v_row0 v + i))
             then (Inr (), s[v_ref v := b[v_row0 v + i := (b ! (v_row0 v + i))[v_col0 v + k := x]]])
             else (Inl IndexError, s))"

text \<open>
  \<open>as_np_array\<close>: \<open>as_list\<close> hands out a list, \<open>np.array\<close> copies it into a new array,
  the filter reads that array and the index with the list of kept columns copies once
  more. \<open>as_list\<close> belongs to the wrapped client and is a parameter: a computation that
  returns the address of a list.
\<close>

definition as_np_array_st :: "nat st \<Rightarrow> nat st" where
  "as_np_array_st as_list =
     sbind as_list (\<lambda>l_ref.
     sbind (read l_ref) (\<lambda>l.
     sbind (lift (np_array l)) (\<lambda>a.
     sbind (alloc a) (\<lambda>data.
     sbind (read data) (\<lambda>d.
     sbind (lift (below_header_T d)) (\<lambda>cols.
       let keep = map fst (filter (\<lambda>(ind, col). list_ex truthy col) (enumerate 0 cols))
       in alloc (take_columns d keep)))))))"

type_synonym indicator_object = "bool \<Rightarrow> bool \<Rightarrow> nat st"

type_synonym climate_object = "bool \<Rightarrow> nat st"

definition IndicatorDataset_as_np_array_st :: "indicator_object \<Rightarrow> bool \<Rightarrow> bool \<Rightarrow> nat st" where
  "IndicatorDataset_as_np_array_st self time_series add_metadata =
     as_np_array_st (self time_series add_metadata)"

definition ClimateDataset_as_np_array_st :: "climate_object \<Rightarrow> bool \<Rightarrow> nat st" where
  "ClimateDataset_as_np_array_st self use_dates = as_np_array_st (self use_dates)"

text \<open>
  \<open>Orange.data.Table(domain, X, metas)\<close> is given two arrays, views or lists of lists;
  the table of the model holds what they hold at that moment.
\<close>

definition whole :: "nat \<Rightarrow> nat \<Rightarrow> view" where
  "whole r w = \<lparr>v_ref = r, v_row0 = 0, v_col0 = 0, v_ncols = w\<rparr>"

definition Table_st :: "domain \<Rightarrow> view \<Rightarrow> view \<Rightarrow> table option st" where
  "Table_st dmn x_view m_view =
     sbind (view_rows x_view) (\<lambda>x.
     sbind (view_rows m_view) (\<lambda>m.
     sreturn (Some \<lparr>tbl_domain = dmn, tbl_X = x, tbl_metas = m\<rparr>)))"

text \<open>
  \<open>IndicatorDataset._time_series_table\<close>: the comprehension builds a new list of
  one-cell lists; \<open>data[1:, 1:]\<close> is a view, which the table reads.
\<close>

definition IndicatorDataset_time_series_table_st ::
  "(date \<Rightarrow> error + real) \<Rightarrow> indicator_object \<Rightarrow> table option st" where
  "IndicatorDataset_time_series_table_st mktime self =
     sbind (IndicatorDataset_as_np_array_st self True False) (\<lambda>data.
     sbind (read data) (\<lambda>d.
       if \<not> np_any d then sreturn None
       else
         sbind (lift (column (length (hd d)) (tl d) 0)) (\<lambda>dates.
         sbind (lift (emap (timestamp_row mktime) dates)) (\<lambda>rows.
         sbind (alloc rows) (\<lambda>meta_columns.
           let data_columns = \<lparr>v_ref = data, v_row0 = 1, v_col0 = 1, v_ncols = length (hd d) - 1\<rparr>;
               meta_domains = [TimeVariable (PStr ''Date'')];
               colum_domains = map ContinuousVariable (drop 1 (hd d))
           in Table_st \<lparr>dom_attributes = colum_domains, dom_metas = meta_domains\<rparr>
                data_columns (whole meta_columns 1))))))"

text \<open>The loops of \<open>_country_table\<close>, cell by cell, on the rows of a view.\<close>

definition encode_cell_st :: "view \<Rightarrow> (pyval \<times> nat) list \<Rightarrow> nat \<Rightarrow> nat \<Rightarrow> unit st" where
  "encode_cell_st v d k i =
     sbind (view_get v i k) (\<lambda>c.
     sbind (lift (dict_get d c)) (\<lambda>n. view_set v i k (PNum (of_nat n))))"

definition encode_row_st ::
  "view \<Rightarrow> (pyval \<times> nat) list \<Rightarrow> (pyval \<times> nat) list \<Rightarrow> (pyval \<times> nat) list \<Rightarrow> (pyval \<times> nat) list
     \<Rightarrow> nat \<Rightarrow> unit st" where
  "encode_row_st v regions admin_regions income_level lending_type i =
     sbind (encode_cell_st v regions 1 i) (\<lambda>u.
     sbind (encode_cell_st v admin_regions 2 i) (\<lambda>u.
     sbind (encode_cell_st v income_level 3 i) (\<lambda>u.
     encode_cell_st v lending_type 6 i)))"

definition float_cell_st :: "(string \<Rightarrow> error + real option) \<Rightarrow> view \<Rightarrow> nat \<Rightarrow> nat \<Rightarrow> unit st" where
  "float_cell_st float_of_str v k i =
     sbind (view_get v i k) (\<lambda>c.
     sbind (lift (py_float float_of_str c)) (\<lambda>f. view_set v i k f))"

definition float_lon_lat_st :: "(string \<Rightarrow> error + real option) \<Rightarrow> view \<Rightarrow> nat \<Rightarrow> unit st" where
  "float_lon_lat_st float_of_str v i =
     sbind (float_cell_st float_of_str v 3 i) (\<lambda>u. float_cell_st float_of_str v 4 i)"

text \<open>The number of rows of a view, and the operations that read a view into a new array.\<close>

definition view_len :: "view \<Rightarrow> nat st" where
  "view_len v = sbind (view_rows v) (\<lambda>rows. sreturn (length rows))"

definition encoding_st ::
  "(pyval list \<Rightarrow> pyval list) \<Rightarrow> view \<Rightarrow> nat \<Rightarrow> (pyval \<times> nat) list st" where
  "encoding_st py_set v k =
     sbind (view_rows v) (\<lambda>rows. lift (encoding py_set (v_ncols v) rows k))"

definition astype_float_st :: "(string \<Rightarrow> error + real option) \<Rightarrow> view \<Rightarrow> nat st" where
  "astype_float_st float_of_str v =
     sbind (view_rows v) (\<lambda>rows.
     sbind (lift (emap (emap (astype_float float_of_str)) rows)) alloc)"

definition np_where_nan_st :: "pyval \<Rightarrow> view \<Rightarrow> nat st" where
  "np_where_nan_st c v = sbind (view_rows v) (\<lambda>rows. alloc (np_where_nan c rows))"

text \<open>\<open>IndicatorDataset._country_table\<close>, statement by statement.\<close>

definition IndicatorDataset_country_table_st ::
  "(pyval list \<Rightarrow> pyval list) \<Rightarrow> (string \<Rightarrow> error + real option) \<Rightarrow> indicator_object
     \<Rightarrow> table option st" where
  "IndicatorDataset_country_table_st py_set float_of_str self =
     sbind (IndicatorDataset_as_np_array_st self False True) (\<lambda>data.
     sbind (read data) (\<lambda>d.
       if \<not> np_any d then sreturn None
       else
         let n = length (hd d);
             meta_columns = \<lparr>v_ref = data, v_row0 = 1, v_col0 = 0, v_ncols = min 7 n\<rparr>;
             data_columns = \<lparr>v_ref = data, v_row0 = 1, v_col0 = 7, v_ncols = n - 7\<rparr>
         in
         sbind (encoding_st py_set meta_columns 1) (\<lambda>regions.
         sbind (encoding_st py_set meta_columns 2) (\<lambda>admin_regions.
         sbind (encoding_st py_set meta_columns 3) (\<lambda>income_level.
         sbind (encoding_st py_set meta_columns 6) (\<lambda>lending_type.
         sbind (lift (discrete_values regions)) (\<lambda>region_values.
         sbind (lift (discrete_values admin_regions)) (\<lambda>admin_region_values.
         sbind (lift (discrete_values income_level)) (\<lambda>income_level_values.
         sbind (lift (discrete_values lending_type)) (\<lambda>lending_type_values.
           let meta_domains =
                 [StringVariable (PStr ''Country''),
                  DiscreteVariable (PStr ''Region'') region_values,
                  DiscreteVariable (PStr ''Admin region'') admin_region_values,
                  DiscreteVariable (PStr ''Income level'') income_level_values,
                  ContinuousVariable (PStr ''Longitude''),
                  ContinuousVariable (PStr ''Latitude''),
                  DiscreteVariable (PStr ''Lending type'') lending_type_values];
               column_domains = map ContinuousVariable (drop 7 (hd d))
           in
           sbind (view_len meta_columns) (\<lambda>rows.
           sbind (sforeach [0..<rows]
                    (encode_row_st meta_columns regions admin_regions income_level lending_type))
             (\<lambda>u.
           sbind (astype_float_st float_of_str data_columns) (\<lambda>x0.
           sbind (np_where_nan_st PNone (whole x0 (n - 7))) (\<lambda>x1.
           sbind (np_where_nan_st (PStr []) (whole x1 (n - 7))) (\<lambda>x2.
           sbind (np_where_nan_st PNone meta_columns) (\<lambda>m1.
           sbind (np_where_nan_st (PStr []) (whole m1 (min 7 n))) (\<lambda>m2.
           sbind (sforeach [0..<rows]
                    (float_lon_lat_st float_of_str
                       \<lparr>v_ref = m2, v_row0 = 0, v_col0 = 1, v_ncols = min 7 n - 1\<rparr>))
             (\<lambda>u.
             Table_st \<lparr>dom_attributes = column_domains, dom_metas = meta_domains\<rparr>
               (whole x2 (n - 7)) (whole m2 (min 7 n))
           ))))))))))))))))))"

definition IndicatorDataset_as_orange_table_st ::
  "(pyval list \<Rightarrow> pyval list) \<Rightarrow> (string \<Rightarrow> error + real option) \<Rightarrow> (date \<Rightarrow> error + real)
     \<Rightarrow> indicator_object \<Rightarrow> bool \<Rightarrow> table option st" where
  "IndicatorDataset_as_orange_table_st py_set float_of_str mktime self time_series =
     (if time_series then IndicatorDataset_time_series_table_st mktime self
      else IndicatorDataset_country_table_st py_set float_of_str self)"

text \<open>\<open>ClimateDataset\<close>: the loop \<open>row[0] = alpha3_map.get(row[0], row[0])\<close> on a view.\<close>

definition normalize_row_st :: "(string \<rightharpoonup> string) \<Rightarrow> view \<Rightarrow> nat \<Rightarrow> unit st" where
  "normalize_row_st alpha3_map v i =
     sbind (view_get v i 0) (\<lambda>c. view_set v i 0 (alpha3_get alpha3_map c))"

definition ClimateDataset_country_table_st ::
  "(string \<rightharpoonup> string) \<Rightarrow> climate_object \<Rightarrow> table option st" where
  "ClimateDataset_country_table_st alpha3_map self =
     sbind (ClimateDataset_as_np_array_st self False) (\<lambda>data.
     sbind (read data) (\<lambda>d.
       if length d < 2 then sreturn None
       else
         let n = length (hd d);
             meta_columns = \<lparr>v_ref = data, v_row0 = 1, v_col0 = 0, v_ncols = min 1 n\<rparr>;
             data_columns = \<lparr>v_ref = data, v_row0 = 1, v_col0 = 1, v_ncols = n - 1\<rparr>
         in
         sbind (view_len meta_columns) (\<lambda>rows.
         sbind (sforeach [0..<rows] (normalize_row_st alpha3_map meta_columns)) (\<lambda>u.
         sbind (read data) (\<lambda>d.
           let meta_domains = map StringVariable (take 1 (hd d));
               colum_domains = map ContinuousVariable (drop 1 (hd d))
           in
           Table_st \<lparr>dom_attributes = colum_domains, dom_metas = meta_domains\<rparr>
             data_columns meta_columns)))))"

definition ClimateDataset_time_series_table_st ::
  "(date \<Rightarrow> error + real) \<Rightarrow> (string \<rightharpoonup> string) \<Rightarrow> climate_object \<Rightarrow> table option st" where
  "ClimateDataset_time_series_table_st mktime alpha3_map self =
     sbind (ClimateDataset_as_np_array_st self True) (\<lambda>data.
     sbind (read data) (\<lambda>d.
       if length d < 2 then sreturn None
       else
         sbind (lift (column (length (hd d)) (tl d) 0)) (\<lambda>dates.
         sbind (lift (emap (timestamp_row mktime) dates)) (\<lambda>rows.
         sbind (alloc rows) (\<lambda>meta_columns.
         sbind (sforeach [0..<length rows]
                  (normalize_row_st alpha3_map (whole meta_columns 1))) (\<lambda>u.
           let data_columns = \<lparr>v_ref = data, v_row0 = 1, v_col0 = 1, v_ncols = length (hd d) - 1\<rparr>;
               meta_domains = map TimeVariable (take 1 (hd d));
               colum_domains = map ContinuousVariable (drop 1 (hd d))
           in
           Table_st \<lparr>dom_attributes = colum_domains, dom_metas = meta_domains\<rparr>
             data_columns (whole meta_columns 1)))))))"

definition ClimateDataset_as_orange_table_st ::
  "(date \<Rightarrow> error + real) \<Rightarrow> (string \<rightharpoonup> string) \<Rightarrow> climate_object \<Rightarrow> bool
     \<Rightarrow> table option st" where
  "ClimateDataset_as_orange_table_st mktime alpha3_map self time_series =
     (if time_series then ClimateDataset_time_series_table_st mktime alpha3_map self
      else ClimateDataset_country_table_st alpha3_map self)"

text \<open>
  A computation keeps the first \<open>n\<close> buffers of the store when it leaves them as they
  are, whatever it returns or raises; \<open>Q\<close> is what is known of the value it returns.
\<close>

definition keeps :: "nat \<Rightarrow> 'a st \<Rightarrow> ('a \<Rightarrow> bool) \<Rightarrow> bool" where
  "keeps n m Q =
     (\<forall>s. n \<le> length s \<longrightarrow>
        (case m s of (r, s') \<Rightarrow>
           n \<le> length s' \<and> take n s' = take n s \<and> (case r of Inl e \<Rightarrow> True | Inr v \<Rightarrow> Q v)))"

text \<open>
  An example: a store that holds the two lists of the example dataset, and objects
  whose \<open>as_list\<close> hands out the stored lists themselves.
\<close>

definition example_store :: store where
  "example_store = [example_countries, example_dates]"

definition example_indicator_object :: indicator_object where
  "example_indicator_object time_series add_metadata = sreturn (if time_series then 1 else 0)"

definition example_climate_object :: climate_object where
  "example_climate_object use_dates = sreturn (if use_dates then 1 else 0)"

section \<open>The column filter\<close>

lemma ebind_Inr [simp]: "ebind (Inr v) f = f v"
  by (simp add: ebind_def)

lemma ebind_Inl [simp]: "ebind (Inl e) f = Inl e"
  by (simp add: ebind_def)

lemma ebind_eq_Inr: "ebind m f = Inr v \<longleftrightarrow> (\<exists>x. m = Inr x \<and> f x = Inr v)"
  by (cases m) simp_all

lemma enumerate_keep:
  "map fst (filter (\<lambda>(ind, col). P col) (enumerate 0 cols))
     = filter (\<lambda>i. P (cols ! i)) [0..<length cols]"
proof (induction cols rule: rev_induct)
  case Nil
  then show ?case by simp
next
  case (snoc c cols)
  have "filter (\<lambda>i. P ((cols @ [c]) ! i)) [0..<length cols]
        = filter (\<lambda>i. P (cols ! i)) [0..<length cols]"
    by (intro filter_cong refl) (simp add: nth_append)
  then show ?case using snoc by (simp add: enumerate_append_eq)
qed


lemma as_np_array_rect:
  assumes "\<forall>r \<in> set rs. length r = length h"
  shows "as_np_array (h # rs)
         = Inr (take_columns (h # rs) (filter (\<lambda>j. \<exists>r \<in> set rs. truthy (r ! j)) [0..<length h]))"
proof -
  have "np_array (h # rs) = Inr (h # rs)" using assms by (simp add: np_array_def)
  moreover have "filter (\<lambda>i. list_ex truthy (map (\<lambda>j. map (\<lambda>r. r ! j) rs) [0..<length h] ! i)) [0..<length h]
      = filter (\<lambda>j. \<exists>r \<in> set rs. truthy (r ! j)) [0..<length h]"
    by (rule filter_cong) (auto simp: list_ex_iff)
  ultimately show ?thesis
    using enumerate_keep [of "list_ex truthy" "map (\<lambda>j. map (\<lambda>r. r ! j) rs) [0..<length h]"]
    by (simp add: as_np_array_def below_header_T_def)
qed


lemma as_np_array_empty: "as_np_array [] = Inl IndexError"
  by (simp add: as_np_array_def np_array_def below_header_T_def)

lemma as_np_array_ragged: "\<not> rectangular l \<Longrightarrow> as_np_array l = Inl ValueError"
  by (auto simp: as_np_array_def np_array_def rectangular_def)

lemma rectangular_Cons: "rectangular (h # rs) \<longleftrightarrow> (\<forall>r \<in> set rs. length r = length h)"
  by (simp add: rectangular_def)

lemma as_np_array_shape:
  assumes "as_np_array l = Inr data"
  shows "length data = length l" and "data \<noteq> []" and "rectangular data" and "rectangular l"
    and "l \<noteq> []"
proof -
  have r: "rectangular l"
    using assms as_np_array_ragged [of l] by auto
  have ne: "l \<noteq> []"
    using assms as_np_array_empty by auto
  then obtain h rs where l: "l = h # rs" by (cases l) auto
  with r have "\<forall>r \<in> set rs. length r = length h" by (simp add: rectangular_Cons)
  from as_np_array_rect [OF this] assms l
  have d: "data = take_columns (h # rs) (filter (\<lambda>j. \<exists>r \<in> set rs. truthy (r ! j)) [0..<length h])"
    by simp
  show "length data = length l" "data \<noteq> []" "rectangular data"
    using l by (simp_all add: d take_columns_def rectangular_def)
  show "rectangular l" "l \<noteq> []" by (fact r ne)+
qed

text \<open>
  Every kept column has a true cell below the header, so an array with a column has a
  row below the header, and a true cell.
\<close>

lemma as_np_array_kept_column:
  assumes "as_np_array l = Inr data" and "j < length (hd data)"
  shows "\<exists>row \<in> set (tl data). truthy (row ! j)"
proof -
  from as_np_array_shape [OF assms(1)] obtain h rs where l: "l = h # rs" and
    r: "\<forall>r \<in> set rs. length r = length h"
    by (cases l) (auto simp: rectangular_Cons)
  let ?keep = "filter (\<lambda>j. \<exists>r \<in> set rs. truthy (r ! j)) [0..<length h]"
  from as_np_array_rect [OF r] assms(1) l have d: "data = take_columns (h # rs) ?keep" by simp
  with assms(2) have j: "j < length ?keep" by (simp add: take_columns_def)
  then have "?keep ! j \<in> set ?keep" by (rule nth_mem)
  then obtain r where "r \<in> set rs" and "truthy (r ! (?keep ! j))" by auto
  with j show ?thesis
    by (auto simp: d take_columns_def intro!: bexI [where x = r])
qed

lemma np_any_iff_column:
  assumes "as_np_array l = Inr data"
  shows "np_any data \<longleftrightarrow> hd data \<noteq> []"
proof
  assume "np_any data"
  then obtain row where "row \<in> set data" and "row \<noteq> []"
    by (fastforce simp: np_any_def list_ex_iff)
  with as_np_array_shape(3) [OF assms] show "hd data \<noteq> []"
    by (auto simp: rectangular_def)
next
  assume "hd data \<noteq> []"
  then have "0 < length (hd data)" by simp
  from as_np_array_kept_column [OF assms this]
  obtain row where row: "row \<in> set (tl data)" "truthy (row ! 0)" by auto
  from row(1) have m: "row \<in> set data" by (rule list.set_sel(2) [rotated]) (use row in auto)
  with as_np_array_shape(3) [OF assms] \<open>hd data \<noteq> []\<close> have "row \<noteq> []"
    by (auto simp: rectangular_def)
  then have "row ! 0 \<in> set row" by simp
  with row(2) m show "np_any data" by (auto simp: np_any_def list_ex_iff)
qed






section \<open>Date strings: what \<open>_get_iso_date\<close> returns\<close>

lemma digit_char_props:
  assumes "n < 10"
  shows "is_digit (digit_char n)" and "digit_val (digit_char n) = int n"
    and "\<not> is_space (digit_char n)" and "digit_char n \<noteq> CHR ''Q''" and "digit_char n \<noteq> CHR ''M''"
    and "digit_char n \<noteq> CHR ''+''" and "digit_char n \<noteq> CHR ''-''" and "digit_char n \<noteq> CHR ''_''"
proof -
  from assms have "n \<in> {0,1,2,3,4,5,6,7,8,9}" by auto
  then show "is_digit (digit_char n)" and "digit_val (digit_char n) = int n"
    and "\<not> is_space (digit_char n)" and "digit_char n \<noteq> CHR ''Q''" and "digit_char n \<noteq> CHR ''M''"
    and "digit_char n \<noteq> CHR ''+''" and "digit_char n \<noteq> CHR ''-''" and "digit_char n \<noteq> CHR ''_''"
    by (auto simp: digit_char_def is_digit_def digit_val_def is_space_def)
qed

lemma is_digit_props:
  assumes "is_digit c"
  shows "\<not> is_space c" and "c \<noteq> CHR ''Q''" and "c \<noteq> CHR ''M''"
    and "c \<noteq> CHR ''+''" and "c \<noteq> CHR ''-''" and "c \<noteq> CHR ''_''"
  using assms by (auto simp: is_digit_def is_space_def)

lemma dec_digits: "\<forall>c \<in> set (dec n). is_digit c"
proof (induction n rule: dec.induct)
  case (1 n)
  show ?case
  proof (cases "n < 10")
    case True
    then show ?thesis by (subst dec.simps) (simp add: digit_char_props)
  next
    case False
    have "n mod 10 < 10" by simp
    with False 1 show ?thesis by (subst dec.simps) (simp add: digit_char_props)
  qed
qed

lemma dec_nonempty: "dec n \<noteq> []"
  by (subst dec.simps) simp

lemma numeral_ok_snoc:
  "numeral_ok s \<Longrightarrow> is_digit c \<Longrightarrow> numeral_ok (s @ [c])"
  by (induction s rule: numeral_ok.induct) (auto split: if_splits dest: is_digit_props)

lemma numeral_ok_dec: "numeral_ok (dec n)"
proof (induction n rule: dec.induct)
  case (1 n)
  show ?case
  proof (cases "n < 10")
    case True
    then show ?thesis by (subst dec.simps) (simp add: digit_char_props)
  next
    case False
    have "n mod 10 < 10" by simp
    with False 1 show ?thesis by (subst dec.simps) (simp add: numeral_ok_snoc digit_char_props)
  qed
qed

lemma filter_digits_dec: "filter is_digit (dec n) = dec n"
  using dec_digits [of n] by (simp add: filter_id_conv)

lemma numeral_val_dec: "numeral_val (dec n) = int n"
proof (induction n rule: dec.induct)
  case (1 n)
  show ?case
  proof (cases "n < 10")
    case True
    then show ?thesis by (subst dec.simps) (simp add: numeral_val_def digit_char_props)
  next
    case False
    have m: "n mod 10 < 10" by simp
    from False 1 have "numeral_val (dec (n div 10)) = int (n div 10)" by simp
    then have "foldl (\<lambda>a c. 10 * a + digit_val c) 0 (dec (n div 10)) = int (n div 10)"
      by (simp add: numeral_val_def filter_digits_dec)
    moreover have "10 * int (n div 10) + int (n mod 10) = int n" by presburger
    moreover have "filter is_digit (dec (n div 10) @ [digit_char (n mod 10)])
        = dec (n div 10) @ [digit_char (n mod 10)]"
      using m by (simp add: filter_digits_dec digit_char_props)
    ultimately show ?thesis using False m
      by (subst dec.simps) (simp add: numeral_val_def digit_char_props)
  qed
qed

lemma length_dec: "n < 10 ^ k \<Longrightarrow> 0 < k \<Longrightarrow> length (dec n) \<le> k"
proof (induction n arbitrary: k rule: dec.induct)
  case (1 n)
  show ?case
  proof (cases "n < 10")
    case True
    with 1 show ?thesis by (subst dec.simps) simp
  next
    case False
    with 1(2,3) obtain k' where k: "k = Suc k'" "0 < k'"
      by (cases k; cases "k - 1") auto
    with 1(2) have "n div 10 < 10 ^ k'" by (simp add: less_mult_imp_div_less mult.commute)
    with 1(1) False k have "length (dec (n div 10)) \<le> k'" by simp
    with False k show ?thesis by (subst dec.simps) simp
  qed
qed

lemma py_strip_dec: "py_strip (dec n) = dec n"
proof -
  have ns: "\<forall>c \<in> set (dec n). \<not> is_space c"
    using dec_digits [of n] by (auto dest: is_digit_props)
  obtain c cs where d: "dec n = c # cs" using dec_nonempty [of n] by (cases "dec n") auto
  with ns have 1: "dropWhile is_space (dec n) = dec n" by simp
  obtain b bs where r: "rev (dec n) = b # bs" using dec_nonempty [of n] by (cases "rev (dec n)") auto
  then have "b \<in> set (dec n)" by (metis list.set_intros(1) set_rev)
  with ns r have "dropWhile is_space (rev (dec n)) = rev (dec n)" by simp
  with 1 show ?thesis by (simp add: py_strip_def)
qed

lemma py_int_dec:
  assumes "n < 10 ^ k" and "0 < k" and "k \<le> 4300"
  shows "py_int (dec n) = Inr (int n)"
proof -
  obtain c cs where d: "dec n = c # cs" using dec_nonempty [of n] by (cases "dec n") auto
  then have "c \<in> set (dec n)" by simp
  then have c: "c \<noteq> CHR ''+''" "c \<noteq> CHR ''-''"
    using dec_digits [of n] by (auto dest: is_digit_props)
  with d have body: "(case dec n of
                 c # r \<Rightarrow> (if c = CHR ''+'' then (1, r)
                           else if c = CHR ''-'' then (- 1, r) else (1, dec n))
               | [] \<Rightarrow> (1, dec n)) = (1 :: int, dec n)"
    by simp
  have "length (dec n) \<le> k" using assms(1,2) by (rule length_dec)
  with assms(3) have "length (dec n) \<le> 4300" by simp
  then show ?thesis
    using numeral_ok_dec [of n] numeral_val_dec [of n] filter_digits_dec [of n]
    by (simp add: py_int_def py_strip_dec body)
qed

lemma py_split_no_sep: "sep \<notin> set s \<Longrightarrow> py_split sep s = [s]"
  by (induction s) auto

lemma py_split_once:
  "sep \<notin> set a \<Longrightarrow> sep \<notin> set b \<Longrightarrow> py_split sep (a @ sep # b) = [a, b]"
  by (induction a) (auto simp: py_split_no_sep)

lemma dec_no_letters: "CHR ''Q'' \<notin> set (dec n)" "CHR ''M'' \<notin> set (dec n)"
  using dec_digits [of n] by (auto dest: is_digit_props)

lemma datetime_date_first:
  "1 \<le> y \<Longrightarrow> y \<le> 9999 \<Longrightarrow> 1 \<le> m \<Longrightarrow> m \<le> 12 \<Longrightarrow> datetime_date y m 1 = Inr (Date y m 1)"
  by (simp add: datetime_date_def c_int_def days_in_month_def)

lemma isoformat_january: "0 \<le> y \<Longrightarrow> isoformat (Date y 1 1) = zfill 4 (dec (nat y)) @ ''-01-01''"
proof -
  have "dec 1 = ''1''" by (simp add: dec.simps digit_char_def)
  then show ?thesis by (simp add: isoformat_def zfill_def)
qed

lemma get_iso_date_quarter:
  assumes "1 \<le> y" "y \<le> 9999" "1 \<le> q" "q \<le> 4"
  shows "get_iso_date today (dec y @ ''Q'' @ dec q) = Inr (PDate (Date (int y) (3 * int q - 2) 1))"
proof -
  have sp: "py_split (CHR ''Q'') (dec y @ CHR ''Q'' # dec q) = [dec y, dec q]"
    by (rule py_split_once) (rule dec_no_letters)+
  have "y < 10 ^ 4" "q < 10 ^ 4"
    using assms(2,4) by simp_all
  then have iy: "py_int (dec y) = Inr (int y)" and iq: "py_int (dec q) = Inr (int q)"
    by (simp_all add: py_int_dec [where k = 4])
  have "datetime_date (int y) (int q * 3 - 2) 1 = Inr (Date (int y) (int q * 3 - 2) 1)"
    using assms by (intro datetime_date_first) auto
  then show ?thesis
    by (simp add: get_iso_date_def try_iso_date_def sp iy iq ebind_def mult.commute)
qed

lemma get_iso_date_month:
  assumes "1 \<le> y" "y \<le> 9999" "1 \<le> m" "m \<le> 12"
  shows "get_iso_date today (dec y @ ''M'' @ dec m) = Inr (PDate (Date (int y) (int m) 1))"
proof -
  have sp: "py_split (CHR ''M'') (dec y @ CHR ''M'' # dec m) = [dec y, dec m]"
    by (rule py_split_once) (rule dec_no_letters)+
  have "y < 10 ^ 4" "m < 10 ^ 4"
    using assms(2,4) by simp_all
  then have iy: "py_int (dec y) = Inr (int y)" and im: "py_int (dec m) = Inr (int m)"
    by (simp_all add: py_int_dec [where k = 4])
  have "datetime_date (int y) (int m) 1 = Inr (Date (int y) (int m) 1)"
    using assms by (intro datetime_date_first) auto
  then show ?thesis
    by (simp add: get_iso_date_def try_iso_date_def sp iy im ebind_def dec_no_letters)
qed

lemma get_iso_date_year:
  assumes "1 \<le> y" "y \<le> 9999"
  shows "get_iso_date today (dec y) = Inr (PStr (zfill 4 (dec y) @ ''-01-01''))"
proof -
  have "y < 10 ^ 4"
    using assms(2) by simp
  then have iy: "py_int (dec y) = Inr (int y)"
    by (simp add: py_int_dec [where k = 4])
  have "datetime_date (int y) 1 1 = Inr (Date (int y) 1 1)"
    using assms by (intro datetime_date_first) auto
  then show ?thesis
    by (simp add: get_iso_date_def try_iso_date_def iy ebind_def dec_no_letters isoformat_january)
qed

text \<open>
  C2, for the years a date can hold. For a year \<open>y\<close> from 1 to 9999 written in decimal,
  \<open>_get_iso_date\<close> returns the date \<open>(y, 3 * q - 2, 1)\<close> for \<open>"yQq"\<close> with \<open>q\<close> from 1 to
  4, the date \<open>(y, m, 1)\<close> for \<open>"yMm"\<close> with \<open>m\<close> from 1 to 12, both as date objects, and
  for the year alone the string of January 1 of that year in ISO format, the year
  filled to four digits.
\<close>

theorem get_iso_date_calendar:
  assumes "1 \<le> y" and "y \<le> 9999" and "1 \<le> q" and "q \<le> 4" and "1 \<le> m" and "m \<le> 12"
  shows "get_iso_date today (dec y @ ''Q'' @ dec q) = Inr (PDate (Date (int y) (3 * int q - 2) 1))
       \<and> get_iso_date today (dec y @ ''M'' @ dec m) = Inr (PDate (Date (int y) (int m) 1))
       \<and> get_iso_date today (dec y) = Inr (PStr (zfill 4 (dec y) @ ''-01-01''))"
proof (intro conjI)
  show "get_iso_date today (dec y @ ''Q'' @ dec q) = Inr (PDate (Date (int y) (3 * int q - 2) 1))"
    using assms(1-4) by (rule get_iso_date_quarter)
  show "get_iso_date today (dec y @ ''M'' @ dec m) = Inr (PDate (Date (int y) (int m) 1))"
    using assms(1,2,5,6) by (rule get_iso_date_month)
  show "get_iso_date today (dec y) = Inr (PStr (zfill 4 (dec y) @ ''-01-01''))"
    using assms(1,2) by (rule get_iso_date_year)
qed

theorem get_iso_date_calendar_witness:
  "(1::nat) \<le> 2002 \<and> (2002::nat) \<le> 9999 \<and> (1::nat) \<le> 3 \<and> (3::nat) \<le> 4 \<and> (1::nat) \<le> 7 \<and> (7::nat) \<le> 12
   \<and> get_iso_date (Date 2026 11 4) ''2002Q3'' = Inr (PDate (Date 2002 7 1))
   \<and> get_iso_date (Date 2026 11 4) ''2002M7'' = Inr (PDate (Date 2002 7 1))
   \<and> get_iso_date (Date 2026 11 4) ''2002'' = Inr (PStr ''2002-01-01'')"
  using get_iso_date_calendar [of 2002 3 7 "Date 2026 11 4"]
  by (simp add: dec.simps digit_char_def zfill_def)

text \<open>
  C2 without the bound on the year fails: \<open>"10000Q1"\<close> has the form, and the result is
  today's date as a string, not the date \<open>(10000, 1, 1)\<close>.
\<close>

theorem get_iso_date_year_out_of_range:
  "get_iso_date (Date 2026 11 4) ''10000Q1'' = Inr (PStr ''2026-11-04'')
   \<and> get_iso_date (Date 2026 11 4) ''10000Q1'' \<noteq> Inr (PDate (Date 10000 1 1))"
  by (simp add: get_iso_date_def try_iso_date_def py_int_def py_strip_def is_space_def is_digit_def
      numeral_val_def digit_val_def datetime_date_def c_int_def ebind_def isoformat_def zfill_def
      dec.simps digit_char_def)

text \<open>
  C5. A string on which parsing fails should give today's date and never raise. The
  handler catches \<open>ValueError\<close> only, and a numeral that does not fit a C \<open>int\<close> makes
  \<open>datetime.date\<close> raise \<open>OverflowError\<close>, which leaves the function.
\<close>

theorem get_iso_date_overflow:
  "get_iso_date (Date 2026 11 4) ''2147483648'' = Inl OverflowError"
  by (simp add: get_iso_date_def try_iso_date_def py_int_def py_strip_def is_space_def is_digit_def
      numeral_val_def digit_val_def datetime_date_def c_int_def ebind_def)

text \<open>The strings the source's comment names, and a quarter and a month out of range.\<close>

lemma get_iso_date_invalid_strings:
  "get_iso_date (Date 2026 11 4) ''Last Known Value'' = Inr (PStr ''2026-11-04'')"
  "get_iso_date (Date 2026 11 4) ''1988-2000'' = Inr (PStr ''2026-11-04'')"
  "get_iso_date (Date 2026 11 4) ''2005Q5'' = Inr (PStr ''2026-11-04'')"
  "get_iso_date (Date 2026 11 4) ''2005M13'' = Inr (PStr ''2026-11-04'')"
  by (simp_all add: get_iso_date_def try_iso_date_def py_int_def py_strip_def is_space_def is_digit_def
      numeral_val_def digit_val_def datetime_date_def c_int_def ebind_def isoformat_def zfill_def
      dec.simps digit_char_def)

text \<open>\<open>OverflowError\<close> is the only exception that leaves \<open>_get_iso_date\<close>.\<close>

lemma py_int_raises: "py_int s = Inl e \<Longrightarrow> e = ValueError"
  by (simp add: py_int_def Let_def split_beta split: if_splits)

lemma datetime_date_raises: "datetime_date y m d = Inl e \<Longrightarrow> e = ValueError \<or> e = OverflowError"
  by (auto simp: datetime_date_def split: if_splits)

lemma try_iso_date_raises: "try_iso_date s = Inl e \<Longrightarrow> e = ValueError \<or> e = OverflowError"
  by (auto simp: try_iso_date_def ebind_def split: if_splits list.splits sum.splits
      dest: py_int_raises datetime_date_raises)

lemma get_iso_date_raises: "get_iso_date today s = Inl e \<Longrightarrow> e = OverflowError"
  by (auto simp: get_iso_date_def split: sum.splits error.splits dest: try_iso_date_raises)

lemma get_iso_date_fallback:
  "try_iso_date s = Inl ValueError \<Longrightarrow> get_iso_date today s = Inr (PStr (isoformat today))"
  by (simp add: get_iso_date_def)

section \<open>Tables\<close>

subsection \<open>Loops and items\<close>

lemma emap_Inr:
  "(\<And>x. x \<in> set xs \<Longrightarrow> f x = Inr (g x)) \<Longrightarrow> emap f xs = Inr (map g xs)"
  by (induction xs) simp_all

lemma emap_eq_InrD:
  "emap f xs = Inr ys \<Longrightarrow> length ys = length xs \<and> (\<forall>i < length xs. f (xs ! i) = Inr (ys ! i))"
proof (induction xs arbitrary: ys)
  case Nil
  then show ?case by simp
next
  case (Cons x xs)
  from Cons.prems obtain y ys' where y: "f x = Inr y" and ys': "emap f xs = Inr ys'"
    and ys: "ys = y # ys'"
    by (auto simp: ebind_eq_Inr)
  from Cons.IH [OF ys'] y ys show ?case
    by (auto simp: nth_Cons split: nat.splits)
qed

lemma emap_returns:
  "(\<And>x. x \<in> set xs \<Longrightarrow> returns (f x)) \<Longrightarrow> returns (emap f xs)"
proof (induction xs)
  case Nil
  then show ?case by (simp add: returns_def)
next
  case (Cons x xs)
  then have "returns (f x)" and "returns (emap f xs)" by simp_all
  then show ?case by (auto simp: returns_def split: sum.splits)
qed

lemma returns_iff: "returns m \<longleftrightarrow> (\<exists>v. m = Inr v)"
  by (cases m) (simp_all add: returns_def)

lemma get_item_ok: "k < length row \<Longrightarrow> get_item row k = Inr (row ! k)"
  by (simp add: get_item_def)

lemma set_item_ok: "k < length row \<Longrightarrow> set_item row k v = Inr (row[k := v])"
  by (simp add: set_item_def)

lemma column_ok: "j < w \<Longrightarrow> column w rows j = Inr (map (\<lambda>r. r ! j) rows)"
  by (simp add: column_def)

subsection \<open>\<open>ClimateDataset\<close>\<close>


lemma rectangular_rows:
  assumes "rectangular data" and "row \<in> set (tl data)"
  shows "length row = length (hd data)"
proof -
  from assms(2) have "row \<in> set data" by (cases data) auto
  with assms(1) show ?thesis by (simp add: rectangular_def)
qed



subsection \<open>The list that \<open>as_list\<close> must return\<close>

text \<open>
  C10. On a list of lists that is not empty and whose rows have one length,
  \<open>as_np_array\<close> returns an array (of as many rows, all of one length). On the empty
  list it raises \<open>IndexError\<close>, at the two-dimensional index of a one-dimensional
  array, and so does each of the four table builders when \<open>as_list\<close> returns the empty
  list: they need a header row at least.
\<close>

theorem as_np_array_needs_header:
  "(l \<noteq> [] \<and> rectangular l \<longrightarrow>
      (\<exists>data. as_np_array l = Inr data \<and> length data = length l \<and> rectangular data))
   \<and> as_np_array [] = Inl IndexError
   \<and> (indicator False True = [] \<longrightarrow>
        IndicatorDataset_country_table py_set float_of_str indicator = Inl IndexError)
   \<and> (indicator True False = [] \<longrightarrow>
        IndicatorDataset_time_series_table mktime indicator = Inl IndexError)
   \<and> (climate False = [] \<longrightarrow>
        ClimateDataset_country_table alpha3_map climate = Inl IndexError)
   \<and> (climate True = [] \<longrightarrow>
        ClimateDataset_time_series_table mktime alpha3_map climate = Inl IndexError)"
proof (intro conjI impI)
  assume "l \<noteq> [] \<and> rectangular l"
  then obtain h rs where l: "l = h # rs" and r: "\<forall>r \<in> set rs. length r = length h"
    by (cases l) (auto simp: rectangular_Cons)
  from as_np_array_rect [OF r] obtain data where d: "as_np_array l = Inr data"
    by (simp add: l)
  from as_np_array_shape(1,3) [OF d] d
  show "\<exists>data. as_np_array l = Inr data \<and> length data = length l \<and> rectangular data"
    by simp
next
  show "as_np_array [] = Inl IndexError" by (rule as_np_array_empty)
next
  assume "indicator False True = []"
  then show "IndicatorDataset_country_table py_set float_of_str indicator = Inl IndexError"
    by (simp add: IndicatorDataset_country_table_def IndicatorDataset_as_np_array_def
        as_np_array_empty)
next
  assume "indicator True False = []"
  then show "IndicatorDataset_time_series_table mktime indicator = Inl IndexError"
    by (simp add: IndicatorDataset_time_series_table_def IndicatorDataset_as_np_array_def
        as_np_array_empty)
next
  assume "climate False = []"
  then show "ClimateDataset_country_table alpha3_map climate = Inl IndexError"
    by (simp add: ClimateDataset_country_table_def ClimateDataset_as_np_array_def
        as_np_array_empty)
next
  assume "climate True = []"
  then show "ClimateDataset_time_series_table mktime alpha3_map climate = Inl IndexError"
    by (simp add: ClimateDataset_time_series_table_def ClimateDataset_as_np_array_def
        as_np_array_empty)
qed

theorem as_np_array_needs_header_witness:
  "(\<exists>data. as_np_array [[PStr ''Country'', PStr ''2010''], [PStr ''Kenya'', PNone]] = Inr data
           \<and> length data = 2 \<and> rectangular data)
   \<and> as_np_array [] = Inl IndexError
   \<and> IndicatorDataset_country_table remdups (\<lambda>s. Inl ValueError) (\<lambda>time_series add_metadata. [])
     = Inl IndexError
   \<and> IndicatorDataset_time_series_table (\<lambda>d. Inl OverflowError) (\<lambda>time_series add_metadata. [])
     = Inl IndexError
   \<and> ClimateDataset_country_table Map.empty (\<lambda>use_dates. []) = Inl IndexError
   \<and> ClimateDataset_time_series_table (\<lambda>d. Inl OverflowError) Map.empty (\<lambda>use_dates. [])
     = Inl IndexError"
proof -
  have p: "[[PStr ''Country'', PStr ''2010''], [PStr ''Kenya'', PNone]] \<noteq> []
           \<and> rectangular [[PStr ''Country'', PStr ''2010''], [PStr ''Kenya'', PNone]]"
    by (simp add: rectangular_def)
  from p as_np_array_needs_header
    [of "[[PStr ''Country'', PStr ''2010''], [PStr ''Kenya'', PNone]]"
        "\<lambda>time_series add_metadata. []" remdups "\<lambda>s. Inl ValueError" "\<lambda>d. Inl OverflowError"
        "\<lambda>use_dates. []" Map.empty]
  show ?thesis by (auto simp: numeral_2_eq_2)
qed

subsection \<open>\<open>IndicatorDataset\<close>: the time series table\<close>

lemma timestamp_row_ok:
  assumes "truthy c \<longrightarrow> (\<exists>d. c = PDate d \<and> returns (mktime d))"
  shows "returns (timestamp_row mktime c)"
  using assms
  by (auto simp: timestamp_row_def timetuple_mktime_def returns_iff)

lemma time_series_table_returns:
  assumes "as_np_array (self True False) = Inr data" and "np_any data"
    and "\<forall>row \<in> set (tl data). truthy (row ! 0) \<longrightarrow> (\<exists>d. row ! 0 = PDate d \<and> returns (mktime d))"
  shows "\<exists>t. IndicatorDataset_time_series_table mktime self = Inr (Some t)"
proof -
  from np_any_iff_column [OF assms(1)] assms(2) have "0 < length (hd data)" by simp
  then have c: "column (length (hd data)) (tl data) 0 = Inr (map (\<lambda>r. r ! 0) (tl data))"
    by (rule column_ok)
  have "returns (emap (timestamp_row mktime) (map (\<lambda>r. r ! 0) (tl data)))"
    using assms(3) by (intro emap_returns timestamp_row_ok) auto
  then obtain m where "emap (timestamp_row mktime) (map (\<lambda>r. r ! 0) (tl data)) = Inr m"
    by (auto simp: returns_iff)
  then show ?thesis
    using assms(1,2) c
    by (simp add: IndicatorDataset_time_series_table_def IndicatorDataset_as_np_array_def)
qed

lemma time_series_table_None_iff:
  assumes "as_np_array (self True False) = Inr data"
  shows "IndicatorDataset_time_series_table mktime self = Inr None \<longleftrightarrow> \<not> np_any data"
  using assms
  by (auto simp: IndicatorDataset_time_series_table_def IndicatorDataset_as_np_array_def
      ebind_eq_Inr Let_def)

subsection \<open>\<open>IndicatorDataset\<close>: sorting and encoding a metadata column\<close>

lemma nonesorter_str: "str_or_none c \<Longrightarrow> nonesorter c = PStr (str_key c)"
  by (cases c) (simp_all add: str_or_none_def nonesorter_def str_key_def)

lemma py_insort_str:
  assumes "str_or_none x" and "\<forall>y \<in> set ys. str_or_none y"
  shows "py_insort nonesorter x ys = Inr (insort_key str_key x ys)"
  using assms(2)
proof (induction ys)
  case Nil
  then show ?case by simp
next
  case (Cons y ys)
  then have "py_lt (nonesorter y) (nonesorter x) = Inr (str_key y < str_key x)"
    using assms(1) by (simp add: nonesorter_str)
  with Cons show ?case by (auto simp: not_less)
qed

lemma py_sorted_str:
  "\<forall>x \<in> set xs. str_or_none x \<Longrightarrow> py_sorted nonesorter xs = Inr (sort_key str_key xs)"
proof (induction xs)
  case Nil
  then show ?case by simp
next
  case (Cons x xs)
  then have "\<forall>y \<in> set (sort_key str_key xs). str_or_none y" by simp
  with Cons show ?case by (simp add: py_insort_str)
qed

lemma py_sorted_sorted:
  assumes "\<forall>x \<in> set xs. str_or_none x"
  shows "py_sorted nonesorter (sort_key str_key xs) = Inr (sort_key str_key xs)"
proof -
  have "sort_key str_key (sort_key str_key xs) = sort_key str_key xs"
    by (rule sort_key_id_if_sorted) (rule sorted_sort_key)
  moreover have "\<forall>x \<in> set (sort_key str_key xs). str_or_none x" using assms by simp
  ultimately show ?thesis using py_sorted_str [of "sort_key str_key xs"] by simp
qed

lemma update_fresh: "k \<notin> fst ` set al \<Longrightarrow> AList.update k v al = al @ [(k, v)]"
  by (induction al) auto

lemma index_dict_from:
  assumes "distinct s" and "set s \<inter> fst ` set d = {}"
  shows "foldl (\<lambda>d (i, r). AList.update r i d) d (enumerate n s) = d @ zip s [n..<n + length s]"
  using assms
proof (induction s arbitrary: d n)
  case Nil
  then show ?case by simp
next
  case (Cons x s)
  from Cons.prems have fresh: "x \<notin> fst ` set d" by auto
  from Cons.prems have "set s \<inter> fst ` set (d @ [(x, n)]) = {}" by auto
  with Cons.prems Cons.IH [of "d @ [(x, n)]" "Suc n"]
  have "foldl (\<lambda>d (i, r). AList.update r i d) (d @ [(x, n)]) (enumerate (Suc n) s)
        = (d @ [(x, n)]) @ zip s [Suc n..<Suc n + length s]"
    by simp
  moreover have "[n..<n + length (x # s)] = n # [Suc n..<Suc n + length s]"
    by (simp add: upt_conv_Cons del: upt_Suc)
  ultimately show ?case using fresh by (simp add: update_fresh del: upt_Suc)
qed

lemma index_dict_distinct: "distinct s \<Longrightarrow> index_dict s = zip s [0..<length s]"
  using index_dict_from [of s "[]" 0] by (simp add: index_dict_def)

lemma dict_get_index:
  assumes "distinct s" and "v \<in> set s"
  shows "\<exists>i < length s. s ! i = v \<and> dict_get (zip s [0..<length s]) v = Inr i"
proof -
  from assms(2) obtain i where i: "i < length s" "s ! i = v" by (auto simp: in_set_conv_nth)
  with assms(1) have "map_of (zip s [0..<length s]) (s ! i) = Some ([0..<length s] ! i)"
    by (intro map_of_zip_nth) simp_all
  with i show ?thesis by (auto simp: dict_get_def)
qed


lemma encoding_ok:
  assumes "k < w"
    and "set (py_set (map (\<lambda>r. r ! k) rows)) = set (map (\<lambda>r. r ! k) rows)"
    and "distinct (py_set (map (\<lambda>r. r ! k) rows))"
    and "\<forall>r \<in> set rows. str_or_none (r ! k)"
  shows "encoding py_set w rows k
         = Inr (zip (sorted_values py_set rows k) [0..<length (sorted_values py_set rows k)])"
proof -
  have "\<forall>x \<in> set (py_set (map (\<lambda>r. r ! k) rows)). str_or_none x"
    using assms(2,4) by auto
  then have "py_sorted nonesorter (py_set (map (\<lambda>r. r ! k) rows))
             = Inr (sorted_values py_set rows k)"
    by (simp add: py_sorted_str sorted_values_def)
  moreover have "distinct (sorted_values py_set rows k)"
    using assms(3) by (simp add: sorted_values_def)
  ultimately show ?thesis
    using assms(1) by (simp add: encoding_def column_ok index_dict_distinct)
qed

lemma discrete_values_ok:
  assumes "set (py_set (map (\<lambda>r. r ! k) rows)) = set (map (\<lambda>r. r ! k) rows)"
    and "\<forall>r \<in> set rows. str_or_none (r ! k)"
  shows "discrete_values (zip (sorted_values py_set rows k) [0..<length (sorted_values py_set rows k)])
         = Inr (sorted_values py_set rows k)"
proof -
  have "\<forall>x \<in> set (py_set (map (\<lambda>r. r ! k) rows)). str_or_none x"
    using assms by auto
  then show ?thesis
    by (simp add: discrete_values_def sorted_values_def py_sorted_sorted)
qed

lemma encode_cell_ok:
  assumes "distinct s" and "k < length row" and "row ! k \<in> set s"
  shows "\<exists>i < length s. s ! i = row ! k
           \<and> encode_cell (zip s [0..<length s]) k row = Inr (row[k := PNum (of_nat i)])"
proof -
  from dict_get_index [OF assms(1,3)] obtain i where
    "i < length s" "s ! i = row ! k" "dict_get (zip s [0..<length s]) (row ! k) = Inr i"
    by auto
  with assms(2) show ?thesis
    by (auto simp: encode_cell_def get_item_ok set_item_ok)
qed

lemma emap_projr:
  "(\<And>x. x \<in> set xs \<Longrightarrow> returns (f x)) \<Longrightarrow> emap f xs = Inr (map (\<lambda>x. projr (f x)) xs)"
proof (rule emap_Inr)
  fix x assume "x \<in> set xs" and "\<And>x. x \<in> set xs \<Longrightarrow> returns (f x)"
  then have "returns (f x)" by simp
  then show "f x = Inr (projr (f x))" by (cases "f x") (simp_all add: returns_def)
qed

lemma length7:
  assumes "length (xs :: 'a list) = 7"
  obtains a0 a1 a2 a3 a4 a5 a6 where "xs = [a0, a1, a2, a3, a4, a5, a6]"
proof -
  from assms have "xs = [xs ! 0, xs ! 1, xs ! 2, xs ! 3, xs ! 4, xs ! 5, xs ! 6]"
    by (intro nth_equalityI) (auto simp: nth_Cons' less_Suc_eq eval_nat_numeral)
  then show ?thesis by (rule that)
qed

lemma encode_row_ok:
  assumes "length mr = 7"
    and "distinct s1" "distinct s2" "distinct s3" "distinct s6"
    and "mr ! 1 \<in> set s1" "mr ! 2 \<in> set s2" "mr ! 3 \<in> set s3" "mr ! 6 \<in> set s6"
  shows "\<exists>n1 n2 n3 n6.
           encode_row (zip s1 [0..<length s1]) (zip s2 [0..<length s2])
             (zip s3 [0..<length s3]) (zip s6 [0..<length s6]) mr
           = Inr [mr ! 0, PNum (of_nat n1), PNum (of_nat n2), PNum (of_nat n3),
                  mr ! 4, mr ! 5, PNum (of_nat n6)]
           \<and> n1 < length s1 \<and> s1 ! n1 = mr ! 1
           \<and> n2 < length s2 \<and> s2 ! n2 = mr ! 2
           \<and> n3 < length s3 \<and> s3 ! n3 = mr ! 3
           \<and> n6 < length s6 \<and> s6 ! n6 = mr ! 6"
proof -
  from assms(1) obtain a0 a1 a2 a3 a4 a5 a6 where mr: "mr = [a0, a1, a2, a3, a4, a5, a6]"
    by (rule length7)
  from assms(6-9) have m: "a1 \<in> set s1" "a2 \<in> set s2" "a3 \<in> set s3" "a6 \<in> set s6"
    by (simp_all add: mr)
  from dict_get_index [OF assms(2) m(1)] obtain n1 where
    n1: "n1 < length s1" "s1 ! n1 = a1" "dict_get (zip s1 [0..<length s1]) a1 = Inr n1" by auto
  from dict_get_index [OF assms(3) m(2)] obtain n2 where
    n2: "n2 < length s2" "s2 ! n2 = a2" "dict_get (zip s2 [0..<length s2]) a2 = Inr n2" by auto
  from dict_get_index [OF assms(4) m(3)] obtain n3 where
    n3: "n3 < length s3" "s3 ! n3 = a3" "dict_get (zip s3 [0..<length s3]) a3 = Inr n3" by auto
  from dict_get_index [OF assms(5) m(4)] obtain n6 where
    n6: "n6 < length s6" "s6 ! n6 = a6" "dict_get (zip s6 [0..<length s6]) a6 = Inr n6" by auto
  have "encode_row (zip s1 [0..<length s1]) (zip s2 [0..<length s2])
             (zip s3 [0..<length s3]) (zip s6 [0..<length s6]) mr
        = Inr [a0, PNum (of_nat n1), PNum (of_nat n2), PNum (of_nat n3), a4, a5, PNum (of_nat n6)]"
    by (simp add: mr encode_row_def encode_cell_def get_item_def set_item_def n1 n2 n3 n6)
  with n1 n2 n3 n6 show ?thesis by (simp add: mr)
qed

lemma py_float_is_float:
  "py_float float_of_str c = Inr v \<Longrightarrow> (\<exists>x. v = PNum x) \<or> v = PNaN"
  by (cases c) (auto simp: py_float_def ebind_eq_Inr split: option.splits)

lemma astype_float_is_float:
  "astype_float float_of_str c = Inr v \<Longrightarrow> (\<exists>x. v = PNum x) \<or> v = PNaN"
  by (cases c) (auto simp: astype_float_def dest: py_float_is_float)

lemma nan_if_empty_float: "(\<exists>x. v = PNum x) \<or> v = PNaN \<Longrightarrow> nan_if_empty v = v"
  by (auto simp: nan_if_empty_def)

lemma np_where_nan_twice:
  "np_where_nan (PStr []) (np_where_nan PNone a) = map (map nan_if_empty) a"
  by (auto simp: np_where_nan_def nan_if_empty_def)

lemma float_lon_lat_ok:
  assumes "py_float float_of_str b4 = Inr f4" and "py_float float_of_str b5 = Inr f5"
  shows "float_lon_lat float_of_str [b0, b1, b2, b3, b4, b5, b6] = Inr [b0, b1, b2, b3, f4, f5, b6]"
  using assms by (simp add: float_lon_lat_def float_cell_def get_item_def set_item_def)

subsection \<open>\<open>IndicatorDataset\<close>: the country table\<close>

text \<open>One row of the meta columns, from the row of the array to the row of the table.\<close>

lemma meta_row_ok:
  assumes "7 \<le> length r"
    and "distinct s1" "distinct s2" "distinct s3" "distinct s6"
    and "r ! 1 \<in> set s1" "r ! 2 \<in> set s2" "r ! 3 \<in> set s3" "r ! 6 \<in> set s6"
    and "returns (py_float float_of_str (nan_if_empty (r ! 4)))"
    and "returns (py_float float_of_str (nan_if_empty (r ! 5)))"
  shows "\<exists>n1 n2 n3 n6.
           encode_row (zip s1 [0..<length s1]) (zip s2 [0..<length s2])
             (zip s3 [0..<length s3]) (zip s6 [0..<length s6]) (take 7 r)
           = Inr [r ! 0, PNum (of_nat n1), PNum (of_nat n2), PNum (of_nat n3),
                  r ! 4, r ! 5, PNum (of_nat n6)]
           \<and> float_lon_lat float_of_str
               (map nan_if_empty [r ! 0, PNum (of_nat n1), PNum (of_nat n2), PNum (of_nat n3),
                  r ! 4, r ! 5, PNum (of_nat n6)])
             = Inr [nan_if_empty (r ! 0), PNum (of_nat n1), PNum (of_nat n2), PNum (of_nat n3),
                    projr (py_float float_of_str (nan_if_empty (r ! 4))),
                    projr (py_float float_of_str (nan_if_empty (r ! 5))), PNum (of_nat n6)]
           \<and> n1 < length s1 \<and> s1 ! n1 = r ! 1
           \<and> n2 < length s2 \<and> s2 ! n2 = r ! 2
           \<and> n3 < length s3 \<and> s3 ! n3 = r ! 3
           \<and> n6 < length s6 \<and> s6 ! n6 = r ! 6"
proof -
  from assms(1) have l: "length (take 7 r) = 7" by simp
  from assms(1) have nth: "take 7 r ! k = r ! k" if "k < 7" for k using that by simp
  from assms(6-9) have "take 7 r ! 1 \<in> set s1" "take 7 r ! 2 \<in> set s2"
    "take 7 r ! 3 \<in> set s3" "take 7 r ! 6 \<in> set s6"
    by (simp_all add: nth)
  from encode_row_ok [OF l assms(2-5) this]
  obtain n1 n2 n3 n6 where
    e: "encode_row (zip s1 [0..<length s1]) (zip s2 [0..<length s2])
             (zip s3 [0..<length s3]) (zip s6 [0..<length s6]) (take 7 r)
           = Inr [r ! 0, PNum (of_nat n1), PNum (of_nat n2), PNum (of_nat n3),
                  r ! 4, r ! 5, PNum (of_nat n6)]"
    and n: "n1 < length s1" "s1 ! n1 = r ! 1" "n2 < length s2" "s2 ! n2 = r ! 2"
      "n3 < length s3" "s3 ! n3 = r ! 3" "n6 < length s6" "s6 ! n6 = r ! 6"
    by (auto simp: nth)
  from assms(10,11) obtain f4 f5 where
    f: "py_float float_of_str (nan_if_empty (r ! 4)) = Inr f4"
       "py_float float_of_str (nan_if_empty (r ! 5)) = Inr f5"
    by (auto simp: returns_iff)
  have num: "nan_if_empty (PNum x) = PNum x" for x by (simp add: nan_if_empty_def)
  from float_lon_lat_ok [OF f]
  have "float_lon_lat float_of_str
               (map nan_if_empty [r ! 0, PNum (of_nat n1), PNum (of_nat n2), PNum (of_nat n3),
                  r ! 4, r ! 5, PNum (of_nat n6)])
             = Inr [nan_if_empty (r ! 0), PNum (of_nat n1), PNum (of_nat n2), PNum (of_nat n3),
                    projr (py_float float_of_str (nan_if_empty (r ! 4))),
                    projr (py_float float_of_str (nan_if_empty (r ! 5))), PNum (of_nat n6)]"
    by (simp add: num f)
  with e n show ?thesis by blast
qed

text \<open>
  The table \<open>_country_table\<close> returns when at least seven columns are left, the four
  encoded columns hold strings or \<open>None\<close>, and the float conversions go through.
\<close>

lemma country_table_result:
  fixes self :: indicator_dataset
  assumes a: "as_np_array (self False True) = Inr data"
    and any: "np_any data"
    and ready: "country_table_ready float_of_str data"
    and sets: "lists_sets py_set"
  shows "\<exists>t. IndicatorDataset_country_table py_set float_of_str self = Inr (Some t)
     \<and> tbl_domain t
       = \<lparr>dom_attributes = map ContinuousVariable (drop 7 (hd data)),
          dom_metas =
            [StringVariable (PStr ''Country''),
             DiscreteVariable (PStr ''Region'') (sorted_values py_set (tl data) 1),
             DiscreteVariable (PStr ''Admin region'') (sorted_values py_set (tl data) 2),
             DiscreteVariable (PStr ''Income level'') (sorted_values py_set (tl data) 3),
             ContinuousVariable (PStr ''Longitude''),
             ContinuousVariable (PStr ''Latitude''),
             DiscreteVariable (PStr ''Lending type'') (sorted_values py_set (tl data) 6)]\<rparr>
     \<and> tbl_X t = map (\<lambda>r. map (\<lambda>c. projr (astype_float float_of_str c)) (drop 7 r)) (tl data)
     \<and> length (tbl_metas t) = length (tl data)
     \<and> (\<forall>i < length (tl data). \<exists>n1 n2 n3 n6.
           tbl_metas t ! i
           = [nan_if_empty (tl data ! i ! 0), PNum (of_nat n1), PNum (of_nat n2), PNum (of_nat n3),
              projr (py_float float_of_str (nan_if_empty (tl data ! i ! 4))),
              projr (py_float float_of_str (nan_if_empty (tl data ! i ! 5))), PNum (of_nat n6)]
           \<and> n1 < length (sorted_values py_set (tl data) 1)
           \<and> sorted_values py_set (tl data) 1 ! n1 = tl data ! i ! 1
           \<and> n2 < length (sorted_values py_set (tl data) 2)
           \<and> sorted_values py_set (tl data) 2 ! n2 = tl data ! i ! 2
           \<and> n3 < length (sorted_values py_set (tl data) 3)
           \<and> sorted_values py_set (tl data) 3 ! n3 = tl data ! i ! 3
           \<and> n6 < length (sorted_values py_set (tl data) 6)
           \<and> sorted_values py_set (tl data) 6 ! n6 = tl data ! i ! 6)"
proof -
  from ready have w: "7 \<le> length (hd data)"
    and keys: "\<forall>r \<in> set (tl data). str_or_none (r ! 1) \<and> str_or_none (r ! 2)
                 \<and> str_or_none (r ! 3) \<and> str_or_none (r ! 6)"
    and dat: "\<forall>r \<in> set (tl data). \<forall>c \<in> set (drop 7 r). returns (astype_float float_of_str c)"
    and lonlat: "\<forall>r \<in> set (tl data). returns (py_float float_of_str (nan_if_empty (r ! 4)))
                 \<and> returns (py_float float_of_str (nan_if_empty (r ! 5)))"
    by (simp_all add: country_table_ready_def list_all_iff)
  from sets have ps: "distinct (py_set xs) \<and> set (py_set xs) = set xs" for xs
    by (simp add: lists_sets_def)
  define M where "M = map (take 7) (tl data)"
  define s where "s k = sorted_values py_set (tl data) k" for k
  define d where "d k = zip (s k) [0..<length (s k)]" for k
  have rect: "rectangular data" using a by (rule as_np_array_shape)
  have len: "7 \<le> length r" if "r \<in> set (tl data)" for r
    using rectangular_rows [OF rect that] w by simp
  have col: "map (\<lambda>r. r ! k) M = map (\<lambda>r. r ! k) (tl data)" if "k < 7" for k
    unfolding M_def using that len by (auto simp: comp_def)
  have sM: "sorted_values py_set M k = s k" if "k < 7" for k
    by (simp add: sorted_values_def s_def col [OF that])
  have sd: "distinct (s k)" and ss: "set (s k) = (\<lambda>r. r ! k) ` set (tl data)" for k
    using ps by (simp_all add: s_def sorted_values_def)
  have kM: "\<forall>r \<in> set M. str_or_none (r ! k)" if "k \<in> {1, 2, 3, 6}" for k
    using that keys len by (auto simp: M_def)
  have enc: "encoding py_set 7 M k = Inr (d k)" if "k \<in> {1, 2, 3, 6}" for k
  proof -
    from that have k: "k < 7" by auto
    from ps have "set (py_set (map (\<lambda>r. r ! k) M)) = set (map (\<lambda>r. r ! k) M)"
      and "distinct (py_set (map (\<lambda>r. r ! k) M))"
      by simp_all
    from encoding_ok [where py_set = py_set and rows = M and k = k and w = 7, OF k this kM [OF that]]
    show ?thesis
      by (simp add: sM [OF k] d_def)
  qed
  have dv: "discrete_values (d k) = Inr (s k)" if "k \<in> {1, 2, 3, 6}" for k
  proof -
    from that have k: "k < 7" by auto
    from ps have "set (py_set (map (\<lambda>r. r ! k) M)) = set (map (\<lambda>r. r ! k) M)" by simp
    from discrete_values_ok [where py_set = py_set and rows = M and k = k, OF this kM [OF that]]
    show ?thesis
      by (simp add: sM [OF k] d_def)
  qed
  have row: "\<exists>n1 n2 n3 n6.
           encode_row (d 1) (d 2) (d 3) (d 6) (take 7 r)
           = Inr [r ! 0, PNum (of_nat n1), PNum (of_nat n2), PNum (of_nat n3),
                  r ! 4, r ! 5, PNum (of_nat n6)]
           \<and> float_lon_lat float_of_str
               (map nan_if_empty [r ! 0, PNum (of_nat n1), PNum (of_nat n2), PNum (of_nat n3),
                  r ! 4, r ! 5, PNum (of_nat n6)])
             = Inr [nan_if_empty (r ! 0), PNum (of_nat n1), PNum (of_nat n2), PNum (of_nat n3),
                    projr (py_float float_of_str (nan_if_empty (r ! 4))),
                    projr (py_float float_of_str (nan_if_empty (r ! 5))), PNum (of_nat n6)]
           \<and> n1 < length (s 1) \<and> s 1 ! n1 = r ! 1
           \<and> n2 < length (s 2) \<and> s 2 ! n2 = r ! 2
           \<and> n3 < length (s 3) \<and> s 3 ! n3 = r ! 3
           \<and> n6 < length (s 6) \<and> s 6 ! n6 = r ! 6"
    if "r \<in> set (tl data)" for r
    unfolding d_def
    using that lonlat
    by (intro meta_row_ok len sd) (auto simp: ss)
  define E where "E = map (\<lambda>mr. projr (encode_row (d 1) (d 2) (d 3) (d 6) mr)) M"
  have eE: "emap (encode_row (d 1) (d 2) (d 3) (d 6)) M = Inr E"
    unfolding E_def
  proof (rule emap_projr)
    fix mr assume "mr \<in> set M"
    then obtain r where "r \<in> set (tl data)" "mr = take 7 r" by (auto simp: M_def)
    with row [of r] show "returns (encode_row (d 1) (d 2) (d 3) (d 6) mr)"
      by (auto simp: returns_iff)
  qed
  define N where "N = map (map nan_if_empty) E"
  define F where "F = map (\<lambda>n. projr (float_lon_lat float_of_str n)) N"
  have eF: "emap (float_lon_lat float_of_str) N = Inr F"
    unfolding F_def
  proof (rule emap_projr)
    fix n assume "n \<in> set N"
    then obtain r where r: "r \<in> set (tl data)"
      and n: "n = map nan_if_empty (projr (encode_row (d 1) (d 2) (d 3) (d 6) (take 7 r)))"
      by (auto simp: N_def E_def M_def)
    from row [OF r] show "returns (float_lon_lat float_of_str n)"
      by (auto simp: returns_iff n)
  qed
  define Xs where
    "Xs = map (\<lambda>r. map (\<lambda>c. projr (astype_float float_of_str c)) (drop 7 r)) (tl data)"
  have eX: "emap (emap (astype_float float_of_str)) (map (drop 7) (tl data)) = Inr Xs"
  proof -
    have "emap (astype_float float_of_str) dr
          = Inr (map (\<lambda>c. projr (astype_float float_of_str c)) dr)"
      if "dr \<in> set (map (drop 7) (tl data))" for dr
      using that dat by (intro emap_projr) auto
    then have "emap (emap (astype_float float_of_str)) (map (drop 7) (tl data))
          = Inr (map (\<lambda>dr. map (\<lambda>c. projr (astype_float float_of_str c)) dr)
                   (map (drop 7) (tl data)))"
      by (rule emap_Inr)
    then show ?thesis by (simp add: Xs_def comp_def)
  qed
  have nX: "map (map nan_if_empty) Xs = Xs"
  proof -
    have "nan_if_empty (projr (astype_float float_of_str c)) = projr (astype_float float_of_str c)"
      if "r \<in> set (tl data)" "c \<in> set (drop 7 r)" for r c
    proof -
      from that dat obtain v where v: "astype_float float_of_str c = Inr v"
        by (auto simp: returns_iff)
      from astype_float_is_float [OF v] show ?thesis
        by (simp add: v nan_if_empty_float)
    qed
    then show ?thesis by (simp add: Xs_def map_idI)
  qed
  have minw: "min 7 (length (hd data)) = 7" using w by simp
  have res: "IndicatorDataset_country_table py_set float_of_str self
     = Inr (Some \<lparr>tbl_domain =
                    \<lparr>dom_attributes = map ContinuousVariable (drop 7 (hd data)),
                       dom_metas =
                         [StringVariable (PStr ''Country''),
                          DiscreteVariable (PStr ''Region'') (s 1),
                          DiscreteVariable (PStr ''Admin region'') (s 2),
                          DiscreteVariable (PStr ''Income level'') (s 3),
                          ContinuousVariable (PStr ''Longitude''),
                          ContinuousVariable (PStr ''Latitude''),
                          DiscreteVariable (PStr ''Lending type'') (s 6)]\<rparr>,
                  tbl_X = Xs, tbl_metas = F\<rparr>)"
    unfolding IndicatorDataset_country_table_def IndicatorDataset_as_np_array_def a ebind_Inr
      Let_def minw M_def [symmetric]
    using any
    by (simp add: enc dv eE eX np_where_nan_twice nX N_def [symmetric] eF del: One_nat_def)
  have rows: "\<exists>n1 n2 n3 n6.
           F ! i
           = [nan_if_empty (tl data ! i ! 0), PNum (of_nat n1), PNum (of_nat n2), PNum (of_nat n3),
              projr (py_float float_of_str (nan_if_empty (tl data ! i ! 4))),
              projr (py_float float_of_str (nan_if_empty (tl data ! i ! 5))), PNum (of_nat n6)]
           \<and> n1 < length (s 1) \<and> s 1 ! n1 = tl data ! i ! 1
           \<and> n2 < length (s 2) \<and> s 2 ! n2 = tl data ! i ! 2
           \<and> n3 < length (s 3) \<and> s 3 ! n3 = tl data ! i ! 3
           \<and> n6 < length (s 6) \<and> s 6 ! n6 = tl data ! i ! 6"
    if "i < length (tl data)" for i
  proof -
    from that have "tl data ! i \<in> set (tl data)" by simp
    from row [OF this] obtain n1 n2 n3 n6 where
      1: "encode_row (d 1) (d 2) (d 3) (d 6) (take 7 (tl data ! i))
           = Inr [tl data ! i ! 0, PNum (of_nat n1), PNum (of_nat n2), PNum (of_nat n3),
                  tl data ! i ! 4, tl data ! i ! 5, PNum (of_nat n6)]"
      and 2: "float_lon_lat float_of_str
               (map nan_if_empty [tl data ! i ! 0, PNum (of_nat n1), PNum (of_nat n2),
                  PNum (of_nat n3), tl data ! i ! 4, tl data ! i ! 5, PNum (of_nat n6)])
             = Inr [nan_if_empty (tl data ! i ! 0), PNum (of_nat n1), PNum (of_nat n2),
                    PNum (of_nat n3),
                    projr (py_float float_of_str (nan_if_empty (tl data ! i ! 4))),
                    projr (py_float float_of_str (nan_if_empty (tl data ! i ! 5))),
                    PNum (of_nat n6)]"
      and 3: "n1 < length (s 1)" "s 1 ! n1 = tl data ! i ! 1"
        "n2 < length (s 2)" "s 2 ! n2 = tl data ! i ! 2"
        "n3 < length (s 3)" "s 3 ! n3 = tl data ! i ! 3"
        "n6 < length (s 6)" "s 6 ! n6 = tl data ! i ! 6"
      by blast
    from that have "F ! i = projr (float_lon_lat float_of_str
        (map nan_if_empty (projr (encode_row (d 1) (d 2) (d 3) (d 6) (take 7 (tl data ! i))))))"
      by (simp add: F_def N_def E_def M_def)
    also have "\<dots> = [nan_if_empty (tl data ! i ! 0), PNum (of_nat n1), PNum (of_nat n2),
                    PNum (of_nat n3),
                    projr (py_float float_of_str (nan_if_empty (tl data ! i ! 4))),
                    projr (py_float float_of_str (nan_if_empty (tl data ! i ! 5))),
                    PNum (of_nat n6)]"
      unfolding 1 sum.sel 2 ..
    finally show ?thesis using 3 by blast
  qed
  have lF: "length F = length (tl data)" by (simp add: F_def N_def E_def M_def)
  from res rows lF show ?thesis
    unfolding s_def Xs_def by simp
qed

subsection \<open>\<open>IndicatorDataset\<close>: what the tables hold\<close>

lemma example_array_eq: "as_np_array example_countries = Inr example_array"
  by (simp add: example_countries_def example_array_def as_np_array_def np_array_def
      below_header_T_def take_columns_def enumerate_eq_zip)

lemma example_array_any: "np_any example_array"
  by (simp add: example_array_def np_any_def)

lemma example_array_ready: "country_table_ready example_float example_array"
  by (simp add: country_table_ready_def example_array_def example_float_def str_or_none_def
      returns_def astype_float_def py_float_def nan_if_empty_def)

lemma lists_sets_remdups: "lists_sets remdups"
  by (simp add: lists_sets_def)



text \<open>
  C4, for the arrays on which \<open>_country_table\<close> gets through. When the filtered array
  has a true cell and is ready (seven columns at least, strings or \<open>None\<close> in the
  encoded columns, cells that convert to float elsewhere), the table's metas are named
  Country, Region, Admin region, Income level, Longitude, Latitude, Lending type in this
  order and its rows are built from the first seven cells of the array's rows: the
  country cell, four positions of dictionary entries, and longitude and latitude as
  floats; the attributes are continuous variables named by the rest of the header, and
  the data columns are the rest of each row, converted to float.
\<close>

theorem country_table_splits_columns:
  fixes self :: indicator_dataset
  assumes "as_np_array (self False True) = Inr data" and "np_any data"
    and "country_table_ready float_of_str data" and "lists_sets py_set"
  shows "\<exists>t v1 v2 v3 v6.
           IndicatorDataset_country_table py_set float_of_str self = Inr (Some t)
         \<and> dom_metas (tbl_domain t)
           = [StringVariable (PStr ''Country''),
              DiscreteVariable (PStr ''Region'') v1,
              DiscreteVariable (PStr ''Admin region'') v2,
              DiscreteVariable (PStr ''Income level'') v3,
              ContinuousVariable (PStr ''Longitude''),
              ContinuousVariable (PStr ''Latitude''),
              DiscreteVariable (PStr ''Lending type'') v6]
         \<and> dom_attributes (tbl_domain t) = map ContinuousVariable (drop 7 (hd data))
         \<and> length (tbl_metas t) = length (tl data)
         \<and> length (tbl_X t) = length (tl data)
         \<and> (\<forall>i < length (tl data).
               length (tbl_metas t ! i) = 7
             \<and> tbl_metas t ! i ! 0 = nan_if_empty (tl data ! i ! 0)
             \<and> (\<exists>n1 n2 n3 n6. tbl_metas t ! i ! 1 = PNum (of_nat n1)
                   \<and> tbl_metas t ! i ! 2 = PNum (of_nat n2)
                   \<and> tbl_metas t ! i ! 3 = PNum (of_nat n3)
                   \<and> tbl_metas t ! i ! 6 = PNum (of_nat n6))
             \<and> py_float float_of_str (nan_if_empty (tl data ! i ! 4)) = Inr (tbl_metas t ! i ! 4)
             \<and> py_float float_of_str (nan_if_empty (tl data ! i ! 5)) = Inr (tbl_metas t ! i ! 5)
             \<and> length (tbl_X t ! i) = length (hd data) - 7
             \<and> (\<forall>j < length (hd data) - 7.
                   astype_float float_of_str (tl data ! i ! (7 + j)) = Inr (tbl_X t ! i ! j)))"
proof -
  from country_table_result [where self = self and data = data, OF assms] obtain t where
    t: "IndicatorDataset_country_table py_set float_of_str self = Inr (Some t)"
    and dm: "tbl_domain t
       = \<lparr>dom_attributes = map ContinuousVariable (drop 7 (hd data)),
          dom_metas =
            [StringVariable (PStr ''Country''),
             DiscreteVariable (PStr ''Region'') (sorted_values py_set (tl data) 1),
             DiscreteVariable (PStr ''Admin region'') (sorted_values py_set (tl data) 2),
             DiscreteVariable (PStr ''Income level'') (sorted_values py_set (tl data) 3),
             ContinuousVariable (PStr ''Longitude''),
             ContinuousVariable (PStr ''Latitude''),
             DiscreteVariable (PStr ''Lending type'') (sorted_values py_set (tl data) 6)]\<rparr>"
    and x: "tbl_X t = map (\<lambda>r. map (\<lambda>c. projr (astype_float float_of_str c)) (drop 7 r)) (tl data)"
    and lm: "length (tbl_metas t) = length (tl data)"
    and rows: "\<And>i. i < length (tl data) \<Longrightarrow> \<exists>n1 n2 n3 n6.
           tbl_metas t ! i
           = [nan_if_empty (tl data ! i ! 0), PNum (of_nat n1), PNum (of_nat n2), PNum (of_nat n3),
              projr (py_float float_of_str (nan_if_empty (tl data ! i ! 4))),
              projr (py_float float_of_str (nan_if_empty (tl data ! i ! 5))), PNum (of_nat n6)]"
    by (elim exE conjE) blast
  have rect: "rectangular data" using assms(1) by (rule as_np_array_shape)
  from assms(3) have w: "7 \<le> length (hd data)"
    and dat: "\<forall>r \<in> set (tl data). \<forall>c \<in> set (drop 7 r). returns (astype_float float_of_str c)"
    and lonlat: "\<forall>r \<in> set (tl data). returns (py_float float_of_str (nan_if_empty (r ! 4)))
                 \<and> returns (py_float float_of_str (nan_if_empty (r ! 5)))"
    by (simp_all add: country_table_ready_def list_all_iff)
  have row: "length (tbl_metas t ! i) = 7
             \<and> tbl_metas t ! i ! 0 = nan_if_empty (tl data ! i ! 0)
             \<and> (\<exists>n1 n2 n3 n6. tbl_metas t ! i ! 1 = PNum (of_nat n1)
                   \<and> tbl_metas t ! i ! 2 = PNum (of_nat n2)
                   \<and> tbl_metas t ! i ! 3 = PNum (of_nat n3)
                   \<and> tbl_metas t ! i ! 6 = PNum (of_nat n6))
             \<and> py_float float_of_str (nan_if_empty (tl data ! i ! 4)) = Inr (tbl_metas t ! i ! 4)
             \<and> py_float float_of_str (nan_if_empty (tl data ! i ! 5)) = Inr (tbl_metas t ! i ! 5)
             \<and> length (tbl_X t ! i) = length (hd data) - 7
             \<and> (\<forall>j < length (hd data) - 7.
                   astype_float float_of_str (tl data ! i ! (7 + j)) = Inr (tbl_X t ! i ! j))"
    if i: "i < length (tl data)" for i
  proof -
    from i have mem: "tl data ! i \<in> set (tl data)" by simp
    from rectangular_rows [OF rect mem] have len: "length (tl data ! i) = length (hd data)" .
    from rows [OF i] obtain n1 n2 n3 n6 where
      m: "tbl_metas t ! i
           = [nan_if_empty (tl data ! i ! 0), PNum (of_nat n1), PNum (of_nat n2), PNum (of_nat n3),
              projr (py_float float_of_str (nan_if_empty (tl data ! i ! 4))),
              projr (py_float float_of_str (nan_if_empty (tl data ! i ! 5))), PNum (of_nat n6)]"
      by blast
    from lonlat mem have
      f: "py_float float_of_str (nan_if_empty (tl data ! i ! 4))
          = Inr (projr (py_float float_of_str (nan_if_empty (tl data ! i ! 4))))"
         "py_float float_of_str (nan_if_empty (tl data ! i ! 5))
          = Inr (projr (py_float float_of_str (nan_if_empty (tl data ! i ! 5))))"
      by (auto simp: returns_iff)
    have xs: "astype_float float_of_str (tl data ! i ! (7 + j)) = Inr (tbl_X t ! i ! j)"
      if j: "j < length (hd data) - 7" for j
    proof -
      from j len have "drop 7 (tl data ! i) ! j \<in> set (drop 7 (tl data ! i))"
        by (intro nth_mem) simp
      with dat mem have "returns (astype_float float_of_str (drop 7 (tl data ! i) ! j))" by blast
      moreover from j len have "drop 7 (tl data ! i) ! j = tl data ! i ! (7 + j)" by simp
      ultimately show ?thesis using i j len by (auto simp: x returns_iff)
    qed
    have "length (tbl_X t ! i) = length (hd data) - 7" using i len by (simp add: x)
    with m f xs show ?thesis by (simp del: One_nat_def)
  qed
  from t dm lm row show ?thesis by (simp add: x)
qed

theorem country_table_splits_columns_witness:
  "\<exists>t v1 v2 v3 v6.
       IndicatorDataset_country_table remdups example_float example_dataset = Inr (Some t)
     \<and> dom_metas (tbl_domain t)
       = [StringVariable (PStr ''Country''),
          DiscreteVariable (PStr ''Region'') v1,
          DiscreteVariable (PStr ''Admin region'') v2,
          DiscreteVariable (PStr ''Income level'') v3,
          ContinuousVariable (PStr ''Longitude''),
          ContinuousVariable (PStr ''Latitude''),
          DiscreteVariable (PStr ''Lending type'') v6]
     \<and> dom_attributes (tbl_domain t) = [ContinuousVariable (PStr ''SP.POP.TOTL - 2010'')]
     \<and> length (tbl_metas t) = 2
     \<and> length (tbl_X t) = 2"
proof -
  have a: "as_np_array (example_dataset False True) = Inr example_array"
    by (simp add: example_dataset_def example_array_eq)
  from country_table_splits_columns
        [where self = example_dataset and data = example_array,
          OF a example_array_any example_array_ready lists_sets_remdups]
  obtain t v1 v2 v3 v6 where
    "IndicatorDataset_country_table remdups example_float example_dataset = Inr (Some t)"
    "dom_metas (tbl_domain t)
       = [StringVariable (PStr ''Country''),
          DiscreteVariable (PStr ''Region'') v1,
          DiscreteVariable (PStr ''Admin region'') v2,
          DiscreteVariable (PStr ''Income level'') v3,
          ContinuousVariable (PStr ''Longitude''),
          ContinuousVariable (PStr ''Latitude''),
          DiscreteVariable (PStr ''Lending type'') v6]"
    "dom_attributes (tbl_domain t) = map ContinuousVariable (drop 7 (hd example_array))"
    "length (tbl_metas t) = length (tl example_array)"
    "length (tbl_X t) = length (tl example_array)"
    by (elim exE conjE) blast
  then show ?thesis by (simp add: example_array_def)
qed

text \<open>
  C4, as the claim states it, fails. For the aggregate ``World'' the columns of admin
  region, longitude and latitude are empty and the filter removes them: five columns
  are left, the array has true cells, and \<open>_country_table\<close> raises \<open>IndexError\<close> at
  \<open>meta_columns[:, 6]\<close>.
\<close>

theorem country_table_five_columns:
  "as_np_array example_world
     = Inr [[PStr ''Country'', PStr ''Region'', PStr ''Income level'', PStr ''Lending type'',
             PStr ''SP.POP.TOTL - 2010''],
            [PStr ''World'', PStr ''Aggregates'', PStr ''Aggregates'', PStr ''Aggregates'',
             PNum 6900]]
   \<and> np_any [[PStr ''Country'', PStr ''Region'', PStr ''Income level'', PStr ''Lending type'',
              PStr ''SP.POP.TOTL - 2010''],
             [PStr ''World'', PStr ''Aggregates'', PStr ''Aggregates'', PStr ''Aggregates'',
              PNum 6900]]
   \<and> IndicatorDataset_country_table remdups example_float (\<lambda>time_series add_metadata. example_world)
     = Inl IndexError"
  by (simp add: IndicatorDataset_country_table_def IndicatorDataset_as_np_array_def
      example_world_def as_np_array_def np_array_def below_header_T_def take_columns_def
      enumerate_eq_zip np_any_def encoding_def column_def nonesorter_def index_dict_def
      discrete_values_def)

subsection \<open>\<open>IndicatorDataset.as_orange_table\<close>\<close>

lemma country_table_None_iff:
  fixes self :: indicator_dataset
  assumes "as_np_array (self False True) = Inr data"
  shows "IndicatorDataset_country_table py_set float_of_str self = Inr None \<longleftrightarrow> \<not> np_any data"
  using assms
  by (auto simp: IndicatorDataset_country_table_def IndicatorDataset_as_np_array_def
      ebind_eq_Inr Let_def)

lemma dates_ready_iff:
  "dates_ready mktime data
   \<longleftrightarrow> (\<forall>row \<in> set (tl data). truthy (row ! 0) \<longrightarrow> (\<exists>d. row ! 0 = PDate d \<and> returns (mktime d)))"
proof -
  have "(case row ! 0 of PDate d \<Rightarrow> returns (mktime d) | c \<Rightarrow> \<not> truthy c)
        \<longleftrightarrow> (truthy (row ! 0) \<longrightarrow> (\<exists>d. row ! 0 = PDate d \<and> returns (mktime d)))"
    for row :: "pyval list"
    by (cases "row ! 0") simp_all
  then show ?thesis by (simp add: dates_ready_def list_all_iff)
qed

text \<open>
  C8, as the code has it. In both branches \<open>as_orange_table\<close> returns \<open>None\<close> if and only
  if the filtered array has no true cell. When it has one, the time series branch
  returns a table if the first column below the header holds dates that \<open>mktime\<close>
  accepts (or false cells), and the country branch returns a table if the array is
  ready for it.
\<close>

theorem as_orange_table_none_iff:
  fixes self :: indicator_dataset
  assumes "as_np_array (self time_series (\<not> time_series)) = Inr data"
  shows "(IndicatorDataset_as_orange_table py_set float_of_str mktime self time_series = Inr None
            \<longleftrightarrow> \<not> np_any data)
       \<and> (np_any data
            \<and> (if time_series then dates_ready mktime data
               else country_table_ready float_of_str data \<and> lists_sets py_set)
          \<longrightarrow> (\<exists>t. IndicatorDataset_as_orange_table py_set float_of_str mktime self time_series
                    = Inr (Some t)))"
proof (cases time_series)
  case True
  with assms have a: "as_np_array (self True False) = Inr data" by simp
  have "\<exists>t. IndicatorDataset_time_series_table mktime self = Inr (Some t)"
    if "np_any data" "dates_ready mktime data"
    using a that by (intro time_series_table_returns [where data = data]) (simp_all add: dates_ready_iff)
  with True time_series_table_None_iff [where self = self and data = data, OF a] show ?thesis
    by (simp add: IndicatorDataset_as_orange_table_def)
next
  case False
  with assms have a: "as_np_array (self False True) = Inr data" by simp
  have "\<exists>t. IndicatorDataset_country_table py_set float_of_str self = Inr (Some t)"
    if "np_any data" "country_table_ready float_of_str data" "lists_sets py_set"
    using country_table_result [where self = self and data = data, OF a that] by blast
  with False country_table_None_iff [where self = self and data = data, OF a] show ?thesis
    by (simp add: IndicatorDataset_as_orange_table_def)
qed

theorem as_orange_table_none_iff_witness:
  "(\<exists>t. IndicatorDataset_as_orange_table remdups example_float example_mktime example_dataset True
         = Inr (Some t))
   \<and> (\<exists>t. IndicatorDataset_as_orange_table remdups example_float example_mktime example_dataset False
         = Inr (Some t))
   \<and> IndicatorDataset_as_orange_table remdups example_float example_mktime example_empty True
     = Inr None
   \<and> IndicatorDataset_as_orange_table remdups example_float example_mktime example_empty False
     = Inr None"
proof -
  let ?dates = "[[PStr ''Date'', PStr ''SP.POP.TOTL - Brazil''],
                 [PDate (Date 2010 1 1), PNum 195], [PDate (Date 2011 1 1), PNone]]"
  have a1: "as_np_array (example_dataset True (\<not> True)) = Inr ?dates"
    by (simp add: example_dataset_def example_dates_def as_np_array_def np_array_def
        below_header_T_def take_columns_def enumerate_eq_zip)
  have b1: "np_any ?dates" by (simp add: np_any_def)
  have c1: "dates_ready example_mktime ?dates"
    by (simp add: dates_ready_def example_mktime_def returns_def)
  have a2: "as_np_array (example_dataset False (\<not> False)) = Inr example_array"
    by (simp add: example_dataset_def example_array_eq)
  have a3: "as_np_array (example_empty ts (\<not> ts)) = Inr [[], []]" for ts
    by (simp add: example_empty_def as_np_array_def np_array_def
        below_header_T_def take_columns_def enumerate_eq_zip)
  have b3: "\<not> np_any [[], []]" by (simp add: np_any_def)
  from as_orange_table_none_iff
        [where self = example_dataset and time_series = True and data = ?dates
           and mktime = example_mktime and py_set = remdups and float_of_str = example_float,
          OF a1] b1 c1
  have 1: "\<exists>t. IndicatorDataset_as_orange_table remdups example_float example_mktime
                  example_dataset True = Inr (Some t)"
    by simp
  from as_orange_table_none_iff
        [where self = example_dataset and time_series = False and data = example_array
           and mktime = example_mktime and py_set = remdups and float_of_str = example_float,
          OF a2] example_array_any example_array_ready lists_sets_remdups
  have 2: "\<exists>t. IndicatorDataset_as_orange_table remdups example_float example_mktime
                  example_dataset False = Inr (Some t)"
    by simp
  from as_orange_table_none_iff
        [where self = example_empty and data = "[[], []]"
           and mktime = example_mktime and py_set = remdups and float_of_str = example_float,
          OF a3] b3
  have 3: "IndicatorDataset_as_orange_table remdups example_float example_mktime example_empty ts
           = Inr None" for ts
    by simp
  from 1 2 3 [of True] 3 [of False] show ?thesis by blast
qed

text \<open>
  C8, as the claim states it, fails in the country branch: for the aggregate ``World''
  the filtered array has true cells and five columns, and \<open>as_orange_table\<close> neither
  returns \<open>None\<close> nor a table; it raises \<open>IndexError\<close>.
\<close>

theorem as_orange_table_raises:
  "(\<exists>data. as_np_array example_world = Inr data \<and> np_any data)
   \<and> IndicatorDataset_as_orange_table remdups example_float example_mktime
       (\<lambda>time_series add_metadata. example_world) False
     = Inl IndexError"
proof -
  have "as_np_array example_world
     = Inr [[PStr ''Country'', PStr ''Region'', PStr ''Income level'', PStr ''Lending type'',
             PStr ''SP.POP.TOTL - 2010''],
            [PStr ''World'', PStr ''Aggregates'', PStr ''Aggregates'', PStr ''Aggregates'',
             PNum 6900]]"
    by (simp add: example_world_def as_np_array_def np_array_def below_header_T_def
        take_columns_def enumerate_eq_zip)
  moreover have "np_any [[PStr ''Country'', PStr ''Region'', PStr ''Income level'',
             PStr ''Lending type'', PStr ''SP.POP.TOTL - 2010''],
            [PStr ''World'', PStr ''Aggregates'', PStr ''Aggregates'', PStr ''Aggregates'',
             PNum 6900]]"
    by (simp add: np_any_def)
  moreover have "IndicatorDataset_as_orange_table remdups example_float example_mktime
       (\<lambda>time_series add_metadata. example_world) False
     = Inl IndexError"
    by (simp add: IndicatorDataset_as_orange_table_def IndicatorDataset_country_table_def
        IndicatorDataset_as_np_array_def
        example_world_def as_np_array_def np_array_def below_header_T_def take_columns_def
        enumerate_eq_zip np_any_def encoding_def column_def nonesorter_def index_dict_def
        discrete_values_def)
  ultimately show ?thesis by simp
qed

section \<open>What the methods leave of the store\<close>

lemma keepsI:
  assumes "\<And>s r s'. n \<le> length s \<Longrightarrow> m s = (r, s') \<Longrightarrow>
             n \<le> length s' \<and> take n s' = take n s \<and> (\<forall>v. r = Inr v \<longrightarrow> Q v)"
  shows "keeps n m Q"
  unfolding keeps_def
proof (intro allI impI)
  fix s :: store assume n: "n \<le> length s"
  obtain r s' where m: "m s = (r, s')" by (cases "m s")
  from assms [OF n m] show "case m s of (r, s') \<Rightarrow>
           n \<le> length s' \<and> take n s' = take n s \<and> (case r of Inl e \<Rightarrow> True | Inr v \<Rightarrow> Q v)"
    by (cases r) (simp_all add: m)
qed

lemma keepsD:
  assumes "keeps n m Q" and "n \<le> length s" and "m s = (r, s')"
  shows "n \<le> length s'" and "take n s' = take n s" and "r = Inr v \<Longrightarrow> Q v"
  using assms by (auto simp: keeps_def split: prod.splits sum.splits)

lemma keeps_weaken: "keeps n m Q \<Longrightarrow> (\<And>v. Q v \<Longrightarrow> R v) \<Longrightarrow> keeps n m R"
  by (rule keepsI) (auto dest: keepsD)

lemma keeps_return: "Q v \<Longrightarrow> keeps n (sreturn v) Q"
  by (rule keepsI) (auto simp: sreturn_def)

lemma keeps_lift: "keeps n (lift m) (\<lambda>v. True)"
  by (rule keepsI) (auto simp: lift_def)

lemma keeps_read: "keeps n (read r) (\<lambda>v. True)"
  by (rule keepsI) (auto simp: read_def)

lemma keeps_alloc: "keeps n (alloc b) (\<lambda>r. n \<le> r)"
  by (rule keepsI) (auto simp: alloc_def)

lemma keeps_view_rows: "keeps n (view_rows v) (\<lambda>rows. True)"
  by (rule keepsI) (auto simp: view_rows_def)

lemma keeps_view_get: "keeps n (view_get v i k) (\<lambda>c. True)"
  by (rule keepsI) (auto simp: view_get_def Let_def split: if_splits)

text \<open>A write through a view of an array that was created after the first \<open>n\<close> buffers.\<close>

lemma keeps_view_set: "n \<le> v_ref v \<Longrightarrow> keeps n (view_set v i k x) (\<lambda>u. True)"
  by (rule keepsI) (auto simp: view_set_def Let_def split: if_splits)

lemma keeps_bind:
  assumes "keeps n m Q" and "\<And>v. Q v \<Longrightarrow> keeps n (f v) R"
  shows "keeps n (sbind m f) R"
proof (rule keepsI)
  fix s r s' assume n: "n \<le> length s" and b: "sbind m f s = (r, s')"
  obtain r1 s1 where m: "m s = (r1, s1)" by (cases "m s")
  note k1 = keepsD [OF assms(1) n m]
  show "n \<le> length s' \<and> take n s' = take n s \<and> (\<forall>v. r = Inr v \<longrightarrow> R v)"
  proof (cases r1)
    case (Inl e)
    with b m k1 show ?thesis by (auto simp: sbind_def)
  next
    case (Inr v)
    with b m have f: "f v s1 = (r, s')" by (simp add: sbind_def)
    from k1(3) Inr have "Q v" by simp
    from keepsD [OF assms(2) [OF this] k1(1) f] k1(2) show ?thesis by auto
  qed
qed

lemma keeps_bind_any:
  assumes "keeps n m (\<lambda>v. True)" and "\<And>v. keeps n (f v) R"
  shows "keeps n (sbind m f) R"
  using assms by (rule keeps_bind)

lemma keeps_foreach:
  "(\<And>x. x \<in> set xs \<Longrightarrow> keeps n (f x) (\<lambda>u. True)) \<Longrightarrow> keeps n (sforeach xs f) (\<lambda>u. True)"
proof (induction xs)
  case Nil
  then show ?case by (simp add: keeps_return)
next
  case (Cons x xs)
  then show ?case by (auto intro!: keeps_bind_any)
qed

lemma keeps_as_np_array:
  assumes "keeps n as_list (\<lambda>r. True)"
  shows "keeps n (as_np_array_st as_list) (\<lambda>data. n \<le> data)"
  unfolding as_np_array_st_def Let_def
  by (intro keeps_bind_any assms keeps_read keeps_lift keeps_bind [OF keeps_alloc] keeps_alloc)

lemma keeps_Table: "keeps n (Table_st dmn x m) (\<lambda>t. True)"
  unfolding Table_st_def
  by (intro keeps_bind_any keeps_view_rows keeps_return TrueI)

lemma keeps_encode_row:
  "n \<le> v_ref v \<Longrightarrow> keeps n (encode_row_st v d1 d2 d3 d6 i) (\<lambda>u. True)"
  unfolding encode_row_st_def encode_cell_st_def
  by (intro keeps_bind_any keeps_view_get keeps_lift keeps_view_set)

lemma keeps_float_lon_lat:
  "n \<le> v_ref v \<Longrightarrow> keeps n (float_lon_lat_st float_of_str v i) (\<lambda>u. True)"
  unfolding float_lon_lat_st_def float_cell_st_def
  by (intro keeps_bind_any keeps_view_get keeps_lift keeps_view_set)

lemma keeps_normalize_row:
  "n \<le> v_ref v \<Longrightarrow> keeps n (normalize_row_st alpha3_map v i) (\<lambda>u. True)"
  unfolding normalize_row_st_def
  by (intro keeps_bind_any keeps_view_get keeps_view_set)

lemma keeps_view_len: "keeps n (view_len v) (\<lambda>k. True)"
  unfolding view_len_def
  by (intro keeps_bind_any keeps_view_rows keeps_return TrueI)

lemma keeps_encoding: "keeps n (encoding_st py_set v k) (\<lambda>d. True)"
  unfolding encoding_st_def
  by (intro keeps_bind_any keeps_view_rows keeps_lift)

lemma keeps_astype_float: "keeps n (astype_float_st float_of_str v) (\<lambda>r. n \<le> r)"
  unfolding astype_float_st_def
  by (intro keeps_bind_any keeps_view_rows keeps_bind [OF keeps_lift] keeps_alloc)

lemma keeps_np_where_nan: "keeps n (np_where_nan_st c v) (\<lambda>r. n \<le> r)"
  unfolding np_where_nan_st_def
  by (intro keeps_bind_any keeps_view_rows keeps_alloc)

lemma keeps_indicator_time_series:
  assumes "\<And>ts am. keeps n (self ts am) (\<lambda>r. True)"
  shows "keeps n (IndicatorDataset_time_series_table_st mktime self) (\<lambda>t. True)"
  unfolding IndicatorDataset_time_series_table_st_def IndicatorDataset_as_np_array_st_def Let_def
proof (intro keeps_bind [OF keeps_as_np_array] assms keeps_bind_any keeps_read)
  fix data :: nat and d :: "pyval list list" assume "n \<le> data"
  show "keeps n
          (if \<not> np_any d then sreturn None
           else sbind (lift (column (length (hd d)) (tl d) 0)) (\<lambda>dates.
                sbind (lift (emap (timestamp_row mktime) dates)) (\<lambda>rows.
                sbind (alloc rows) (\<lambda>meta_columns.
                  Table_st \<lparr>dom_attributes = map ContinuousVariable (drop 1 (hd d)),
                              dom_metas = [TimeVariable (PStr ''Date'')]\<rparr>
                    \<lparr>v_ref = data, v_row0 = 1, v_col0 = 1, v_ncols = length (hd d) - 1\<rparr>
                    (whole meta_columns 1)))))
          (\<lambda>t. True)"
    by (auto intro!: keeps_return keeps_bind_any keeps_lift keeps_Table
        keeps_weaken [OF keeps_alloc])
qed

lemma keeps_indicator_country:
  assumes "\<And>ts am. keeps n (self ts am) (\<lambda>r. True)"
  shows "keeps n (IndicatorDataset_country_table_st py_set float_of_str self) (\<lambda>t. True)"
  unfolding IndicatorDataset_country_table_st_def IndicatorDataset_as_np_array_st_def Let_def
proof (intro keeps_bind [OF keeps_as_np_array] assms keeps_bind_any keeps_read)
  fix data :: nat and d :: "pyval list list" assume data: "n \<le> data"
  let ?meta = "\<lparr>v_ref = data, v_row0 = 1, v_col0 = 0, v_ncols = min 7 (length (hd d))\<rparr>"
  have enc: "keeps n (sforeach [0..<rows] (encode_row_st ?meta d1 d2 d3 d6)) (\<lambda>u. True)"
    for rows d1 d2 d3 d6
    using data by (intro keeps_foreach keeps_encode_row) simp
  have flo: "keeps n (sforeach [0..<rows]
                (float_lon_lat_st float_of_str
                   \<lparr>v_ref = m2, v_row0 = 0, v_col0 = 1, v_ncols = min 7 (length (hd d)) - 1\<rparr>))
              (\<lambda>u. True)"
    if "n \<le> m2" for rows m2
    using that by (intro keeps_foreach keeps_float_lon_lat) simp
  show "keeps n
          (if \<not> np_any d then sreturn None
           else
         sbind (encoding_st py_set ?meta 1) (\<lambda>regions.
         sbind (encoding_st py_set ?meta 2) (\<lambda>admin_regions.
         sbind (encoding_st py_set ?meta 3) (\<lambda>income_level.
         sbind (encoding_st py_set ?meta 6) (\<lambda>lending_type.
         sbind (lift (discrete_values regions)) (\<lambda>region_values.
         sbind (lift (discrete_values admin_regions)) (\<lambda>admin_region_values.
         sbind (lift (discrete_values income_level)) (\<lambda>income_level_values.
         sbind (lift (discrete_values lending_type)) (\<lambda>lending_type_values.
           sbind (view_len ?meta) (\<lambda>rows.
           sbind (sforeach [0..<rows]
                    (encode_row_st ?meta regions admin_regions income_level lending_type))
             (\<lambda>u.
           sbind (astype_float_st float_of_str
                    \<lparr>v_ref = data, v_row0 = 1, v_col0 = 7, v_ncols = length (hd d) - 7\<rparr>) (\<lambda>x0.
           sbind (np_where_nan_st PNone (whole x0 (length (hd d) - 7))) (\<lambda>x1.
           sbind (np_where_nan_st (PStr []) (whole x1 (length (hd d) - 7))) (\<lambda>x2.
           sbind (np_where_nan_st PNone ?meta) (\<lambda>m1.
           sbind (np_where_nan_st (PStr []) (whole m1 (min 7 (length (hd d))))) (\<lambda>m2.
           sbind (sforeach [0..<rows]
                    (float_lon_lat_st float_of_str
                       \<lparr>v_ref = m2, v_row0 = 0, v_col0 = 1,
                          v_ncols = min 7 (length (hd d)) - 1\<rparr>))
             (\<lambda>u.
             Table_st
              \<lparr>dom_attributes = map ContinuousVariable (drop 7 (hd d)),
                 dom_metas =
                 [StringVariable (PStr ''Country''),
                  DiscreteVariable (PStr ''Region'') region_values,
                  DiscreteVariable (PStr ''Admin region'') admin_region_values,
                  DiscreteVariable (PStr ''Income level'') income_level_values,
                  ContinuousVariable (PStr ''Longitude''),
                  ContinuousVariable (PStr ''Latitude''),
                  DiscreteVariable (PStr ''Lending type'') lending_type_values]\<rparr>
               (whole x2 (length (hd d) - 7)) (whole m2 (min 7 (length (hd d))))
           )))))))))))))))))
          (\<lambda>t. True)"
  proof (cases "np_any d")
    case False
    then show ?thesis by (simp add: keeps_return)
  next
    case True
    then have nn: "\<not> \<not> np_any d" by simp
    show ?thesis
      unfolding if_not_P [OF nn]
      by (intro keeps_bind_any keeps_encoding keeps_lift keeps_view_len enc keeps_Table
          keeps_weaken [OF keeps_astype_float] keeps_weaken [OF keeps_np_where_nan] TrueI
          keeps_bind [OF keeps_np_where_nan] flo)
  qed
qed

lemma keeps_climate_country:
  assumes "\<And>d. keeps n (self d) (\<lambda>r. True)"
  shows "keeps n (ClimateDataset_country_table_st alpha3_map self) (\<lambda>t. True)"
  unfolding ClimateDataset_country_table_st_def ClimateDataset_as_np_array_st_def Let_def
proof (intro keeps_bind [OF keeps_as_np_array] assms keeps_bind_any keeps_read)
  fix data :: nat and d :: "pyval list list" assume data: "n \<le> data"
  let ?meta = "\<lparr>v_ref = data, v_row0 = 1, v_col0 = 0, v_ncols = min 1 (length (hd d))\<rparr>"
  have loop: "keeps n (sforeach [0..<rows] (normalize_row_st alpha3_map ?meta)) (\<lambda>u. True)"
    for rows
    using data by (intro keeps_foreach keeps_normalize_row) simp
  show "keeps n
          (if length d < 2 then sreturn None
           else sbind (view_len ?meta) (\<lambda>rows.
                sbind (sforeach [0..<rows] (normalize_row_st alpha3_map ?meta)) (\<lambda>u.
                sbind (read data) (\<lambda>d'.
                  Table_st \<lparr>dom_attributes = map ContinuousVariable (drop 1 (hd d')),
                              dom_metas = map StringVariable (take 1 (hd d'))\<rparr>
                    \<lparr>v_ref = data, v_row0 = 1, v_col0 = 1, v_ncols = length (hd d) - 1\<rparr>
                    ?meta))))
          (\<lambda>t. True)"
  proof (cases "length d < 2")
    case True
    then show ?thesis by (simp add: keeps_return)
  next
    case False
    show ?thesis
      unfolding if_not_P [OF False]
      by (intro keeps_bind_any keeps_view_len loop keeps_read keeps_Table)
  qed
qed

lemma keeps_climate_time_series:
  assumes "\<And>d. keeps n (self d) (\<lambda>r. True)"
  shows "keeps n (ClimateDataset_time_series_table_st mktime alpha3_map self) (\<lambda>t. True)"
  unfolding ClimateDataset_time_series_table_st_def ClimateDataset_as_np_array_st_def Let_def
proof (intro keeps_bind [OF keeps_as_np_array] assms keeps_bind_any keeps_read)
  fix data :: nat and d :: "pyval list list" assume data: "n \<le> data"
  have loop: "keeps n (sforeach [0..<k] (normalize_row_st alpha3_map (whole m 1))) (\<lambda>u. True)"
    if "n \<le> m" for k m
    using that by (intro keeps_foreach keeps_normalize_row) (simp add: whole_def)
  show "keeps n
          (if length d < 2 then sreturn None
           else sbind (lift (column (length (hd d)) (tl d) 0)) (\<lambda>dates.
                sbind (lift (emap (timestamp_row mktime) dates)) (\<lambda>rows.
                sbind (alloc rows) (\<lambda>meta_columns.
                sbind (sforeach [0..<length rows]
                         (normalize_row_st alpha3_map (whole meta_columns 1))) (\<lambda>u.
                  Table_st \<lparr>dom_attributes = map ContinuousVariable (drop 1 (hd d)),
                              dom_metas = map TimeVariable (take 1 (hd d))\<rparr>
                    \<lparr>v_ref = data, v_row0 = 1, v_col0 = 1, v_ncols = length (hd d) - 1\<rparr>
                    (whole meta_columns 1))))))
          (\<lambda>t. True)"
  proof (cases "length d < 2")
    case True
    then show ?thesis by (simp add: keeps_return)
  next
    case False
    show ?thesis
      unfolding if_not_P [OF False]
      by (intro keeps_bind_any keeps_lift keeps_bind [OF keeps_alloc] loop keeps_Table)
  qed
qed

lemma keeps_whole_store:
  assumes "keeps (length s) m Q"
  shows "length s \<le> length (snd (m s)) \<and> take (length s) (snd (m s)) = s"
proof -
  obtain r s' where m: "m s = (r, s')" by (cases "m s")
  from keepsD(1,2) [OF assms _ m] show ?thesis by (simp add: m)
qed

text \<open>
  What \<open>np.array\<close> and the filter make of the store, when \<open>as_list\<close> hands out the list
  at \<open>l\<close>: the copy and the filtered array are appended, and the filtered array is the
  array of \<open>as_np_array\<close>.
\<close>

lemma as_np_array_st_eq:
  "as_np_array_st (sreturn l) s
   = (case np_array (buffer s l) of
        Inl e \<Rightarrow> (Inl e, s)
      | Inr a \<Rightarrow>
          (case as_np_array (buffer s l) of
             Inl e \<Rightarrow> (Inl e, s @ [a])
           | Inr data \<Rightarrow> (Inr (Suc (length s)), s @ [a, data])))"
  by (auto simp: as_np_array_st_def as_np_array_def sbind_def sreturn_def read_def lift_def
      alloc_def buffer_def Let_def ebind_def nth_append split: sum.splits)

text \<open>
  C7. Let \<open>as_list\<close> of either class hand out a list without changing a buffer that
  exists (it may hand out a list the object stores). Then \<open>as_np_array\<close> and
  \<open>as_orange_table\<close> of both classes, with any flags, whether they return or raise,
  leave every buffer of the store as it was: the store after the call is the store
  before it, followed by the arrays the call created. So the assignments in
  \<open>_country_table\<close> and in the other builders write into arrays created by the call.
\<close>

theorem methods_keep_the_store:
  assumes "\<And>n ts am. keeps n (indicator ts am) (\<lambda>r. True)"
    and "\<And>n d. keeps n (climate d) (\<lambda>r. True)"
  shows "take (length s) (snd (IndicatorDataset_as_np_array_st indicator time_series add_metadata s))
           = s
       \<and> take (length s)
            (snd (IndicatorDataset_as_orange_table_st py_set float_of_str mktime indicator
                    time_series s))
           = s
       \<and> take (length s) (snd (ClimateDataset_as_np_array_st climate use_dates s)) = s
       \<and> take (length s)
            (snd (ClimateDataset_as_orange_table_st mktime alpha3_map climate time_series s))
           = s"
proof (intro conjI)
  have "keeps (length s) (IndicatorDataset_as_np_array_st indicator time_series add_metadata)
          (\<lambda>r. length s \<le> r)"
    unfolding IndicatorDataset_as_np_array_st_def by (intro keeps_as_np_array assms)
  then show "take (length s)
      (snd (IndicatorDataset_as_np_array_st indicator time_series add_metadata s)) = s"
    by (simp add: keeps_whole_store)
  have "keeps (length s)
          (IndicatorDataset_as_orange_table_st py_set float_of_str mktime indicator time_series)
          (\<lambda>t. True)"
    unfolding IndicatorDataset_as_orange_table_st_def
    by (simp add: keeps_indicator_time_series keeps_indicator_country assms)
  then show "take (length s)
            (snd (IndicatorDataset_as_orange_table_st py_set float_of_str mktime indicator
                    time_series s)) = s"
    by (simp add: keeps_whole_store)
  have "keeps (length s) (ClimateDataset_as_np_array_st climate use_dates) (\<lambda>r. length s \<le> r)"
    unfolding ClimateDataset_as_np_array_st_def by (intro keeps_as_np_array assms)
  then show "take (length s) (snd (ClimateDataset_as_np_array_st climate use_dates s)) = s"
    by (simp add: keeps_whole_store)
  have "keeps (length s)
          (ClimateDataset_as_orange_table_st mktime alpha3_map climate time_series) (\<lambda>t. True)"
    unfolding ClimateDataset_as_orange_table_st_def
    by (simp add: keeps_climate_time_series keeps_climate_country assms)
  then show "take (length s)
            (snd (ClimateDataset_as_orange_table_st mktime alpha3_map climate time_series s)) = s"
    by (simp add: keeps_whole_store)
qed

theorem methods_keep_the_store_witness:
  "take 2 (snd (IndicatorDataset_as_np_array_st example_indicator_object False True example_store))
     = example_store
   \<and> take 2 (snd (IndicatorDataset_as_orange_table_st remdups example_float example_mktime
                    example_indicator_object False example_store))
     = example_store
   \<and> take 2 (snd (ClimateDataset_as_np_array_st example_climate_object False example_store))
     = example_store
   \<and> take 2 (snd (ClimateDataset_as_orange_table_st example_mktime Map.empty
                    example_climate_object False example_store))
     = example_store"
proof -
  have i: "keeps n (example_indicator_object ts am) (\<lambda>r. True)" for n ts am
    by (simp add: example_indicator_object_def keeps_return)
  have c: "keeps n (example_climate_object d) (\<lambda>r. True)" for n d
    by (simp add: example_climate_object_def keeps_return)
  have l: "length example_store = 2" by (simp add: example_store_def)
  from methods_keep_the_store
    [of example_indicator_object example_climate_object example_store False True
        remdups example_float example_mktime False Map.empty, OF i c]
  show ?thesis by (simp only: l)
qed

text \<open>
  The example, run: the call appends seven arrays to the two lists, the second of them
  the filtered array, in which the loop has replaced the cells of the encoded columns;
  the table is the table of the function on lists.
\<close>

lemma example_store_after:
  "length (snd (IndicatorDataset_country_table_st remdups example_float
                  example_indicator_object example_store)) = 9"
  "snd (IndicatorDataset_country_table_st remdups example_float
          example_indicator_object example_store) ! 3 ! 1
   = [PStr ''Brazil'', PNum 0, PNum 1, PNum 1, PStr ''-47.9'', PStr ''-15.7'', PNum 0, PNum 195]"
  "fst (IndicatorDataset_country_table_st remdups example_float
          example_indicator_object example_store)
   = IndicatorDataset_country_table remdups example_float example_dataset"
  by code_simp+

end
